theory Spec2Isabelle
  imports Main "HOL-Library.Sublist"
begin

section \<open>Go values: maps, the map store, panics\<close>

text \<open>
  The launch-template provider of \<^verbatim>\<open>pkg/providers/launchtemplate/launchtemplate.go\<close>.

  A Go \<^verbatim>\<open>map[string]string\<close> is a reference to a mutable table. The content of a table is
  a partial function from keys to values; a reference is \<open>NilMap\<close> (the nil map, which
  reads as empty) or the address of a table in the store. The store is the list of all
  tables allocated so far, an address being an index into it, so allocation appends.
  A \<^verbatim>\<open>map[string]*string\<close> (the tags of a \<^verbatim>\<open>Template\<close>) is stored the same way, each
  pointer being represented by the string it points to.
\<close>

type_synonym gomap = "string \<rightharpoonup> string"

datatype mapref = NilMap | MapAt nat

text \<open>
  A Go function either returns or panics. The two runtime panics this file can raise are
  the dereference of a nil pointer and an index outside a slice (with the index).
\<close>

datatype panic = NilPointerDereference | IndexOutOfRange int

datatype 'a outcome = Panic panic | Return 'a

text \<open>The calls to external collaborators, recorded in the order they are made.\<close>

datatype call = KubeServerVersion_call | Resolve_call | Script_call

record world =
  heap :: "gomap list"
  calls :: "call list"

definition deref :: "gomap list \<Rightarrow> mapref \<Rightarrow> gomap" where
  "deref h r = (case r of
      NilMap \<Rightarrow> Map.empty
    | MapAt a \<Rightarrow> (if a < length h then h ! a else Map.empty))"

text \<open>\<^verbatim>\<open>make(map...)\<close> followed by the writes that fill the new table.\<close>

definition make_map :: "world \<Rightarrow> gomap \<Rightarrow> mapref \<times> world" where
  "make_map w m = (MapAt (length (heap w)), w\<lparr>heap := heap w @ [m]\<rparr>)"

text \<open>Indexing a slice: Go checks the bounds and panics outside them.\<close>

definition index :: "'a list \<Rightarrow> int \<Rightarrow> 'a outcome" where
  "index xs i = (if 0 \<le> i \<and> i < int (length xs) then Return (xs ! nat i)
                 else Panic (IndexOutOfRange i))"

section \<open>Library functions the file calls\<close>

text \<open>
  \<^verbatim>\<open>strings.Split(s, sep)\<close> for a separator of one byte: the pieces of \<open>s\<close> between the
  occurrences of \<open>sep\<close>; one piece more than there are separators, so never an empty
  slice (\<^verbatim>\<open>strings.Split("", "/")\<close> is \<^verbatim>\<open>[""]\<close>).
\<close>

fun strings_Split :: "string \<Rightarrow> char \<Rightarrow> string list" where
  "strings_Split [] sep = [[]]"
| "strings_Split (c # cs) sep =
     (if c = sep then [] # strings_Split cs sep
      else (case strings_Split cs sep of
              [] \<Rightarrow> [[c]]
            | p # ps \<Rightarrow> (c # p) # ps))"

text \<open>\<^verbatim>\<open>strings.ReplaceAll(s, old, new)\<close> for \<open>old\<close> and \<open>new\<close> of one byte each.\<close>

definition strings_ReplaceAll :: "string \<Rightarrow> char \<Rightarrow> char \<Rightarrow> string" where
  "strings_ReplaceAll s old new = map (\<lambda>c. if c = old then new else c) s"

text \<open>
  \<^verbatim>\<open>lo.Ternary(condition, ifOutput, elseOutput)\<close> is an ordinary function: Go evaluates
  all three arguments before the call.
\<close>

definition lo_Ternary :: "bool \<Rightarrow> 'a \<Rightarrow> 'a \<Rightarrow> 'a" where
  "lo_Ternary condition ifOutput elseOutput = (if condition then ifOutput else elseOutput)"

text \<open>
  \<^verbatim>\<open>lo.Assign(maps...)\<close> makes a new table and copies every entry of every argument into
  it, argument by argument, so that a later argument overwrites an earlier one. Within one
  argument the keys are distinct, so the order in which its entries are visited does not
  show. \<open>assign_maps\<close> is the content of the new table.
\<close>

definition assign_maps :: "gomap list \<Rightarrow> gomap" where
  "assign_maps ms = foldl (\<lambda>out m. out ++ m) Map.empty ms"

definition lo_Assign :: "world \<Rightarrow> mapref list \<Rightarrow> mapref \<times> world" where
  "lo_Assign w maps = make_map w (assign_maps (map (deref (heap w)) maps))"

text \<open>
  \<^verbatim>\<open>lo.MapEntries(in, iteratee)\<close> makes a new table and, for every key \<open>k1\<close> of \<open>in\<close>,
  stores the pair the iteratee returns: \<^verbatim>\<open>k2, v2 := iteratee(k1, in[k1]); result[k2] = v2\<close>.
  Go does not fix the order in which \<^verbatim>\<open>range\<close> visits a map, and the order shows when the
  iteratee sends two keys to the same new key: the entry visited last stays. The order of
  one run is the parameter \<open>order\<close>; \<open>range_order order m\<close> says that it is a possible one,
  each key of the map once.
\<close>

definition range_order :: "string list \<Rightarrow> gomap \<Rightarrow> bool" where
  "range_order order m = (distinct order \<and> set order = dom m)"

definition map_entries :: "string list \<Rightarrow> gomap \<Rightarrow> (string \<Rightarrow> string \<Rightarrow> string \<times> string) \<Rightarrow> gomap" where
  "map_entries order m iteratee =
     foldl (\<lambda>result k1. case m k1 of
                           None \<Rightarrow> result
                         | Some v1 \<Rightarrow> (case iteratee k1 v1 of (k2, v2) \<Rightarrow> result(k2 \<mapsto> v2)))
           Map.empty order"

definition lo_MapEntries :: "string list \<Rightarrow> world \<Rightarrow> mapref \<Rightarrow> (string \<Rightarrow> string \<Rightarrow> string \<times> string) \<Rightarrow> mapref \<times> world" where
  "lo_MapEntries order w m iteratee = make_map w (map_entries order (deref (heap w) m) iteratee)"

text \<open>\<^verbatim>\<open>to.StringPtr(s)\<close>: a pointer to a copy of \<open>s\<close>, represented by the string.\<close>

definition to_StringPtr :: "string \<Rightarrow> string" where
  "to_StringPtr s = s"

section \<open>Constants\<close>

definition karpenterManagedTagKey :: string where
  "karpenterManagedTagKey = ''karpenter.azure.com/cluster''"

definition vnetDataPlaneLabel :: string where
  "vnetDataPlaneLabel = ''kubernetes.azure.com/ebpf-dataplane''"

definition vnetNetworkNameLabel :: string where
  "vnetNetworkNameLabel = ''kubernetes.azure.com/network-name''"

definition vnetSubnetNameLabel :: string where
  "vnetSubnetNameLabel = ''kubernetes.azure.com/network-subnet''"

definition vnetSubscriptionIDLabel :: string where
  "vnetSubscriptionIDLabel = ''kubernetes.azure.com/network-subscription''"

definition vnetGUIDLabel :: string where
  "vnetGUIDLabel = ''kubernetes.azure.com/nodenetwork-vnetguid''"

definition vnetPodNetworkTypeLabel :: string where
  "vnetPodNetworkTypeLabel = ''kubernetes.azure.com/podnetwork-type''"

definition ciliumNetworkPlugin :: string where
  "ciliumNetworkPlugin = ''cilium''"

definition overlayNetworkType :: string where
  "overlayNetworkType = ''overlay''"

text \<open>
  Constants of the imported Kubernetes and Karpenter packages:
  \<^verbatim>\<open>v1.LabelArchStable\<close>, \<^verbatim>\<open>corev1beta1.ArchitectureAmd64\<close>, \<^verbatim>\<open>corev1beta1.ArchitectureArm64\<close>.
\<close>

definition LabelArchStable :: string where
  "LabelArchStable = ''kubernetes.io/arch''"

definition ArchitectureAmd64 :: string where
  "ArchitectureAmd64 = ''amd64''"

definition ArchitectureArm64 :: string where
  "ArchitectureArm64 = ''arm64''"

section \<open>Data model\<close>

record Template =
  T_UserData :: string
  T_ImageID :: string
  T_Tags :: mapref

record Provider =
  caBundle :: "string option"
  clusterEndpoint :: string
  tenantID :: string
  subscriptionID :: string
  userAssignedIdentityID :: string
  resourceGroup :: string
  location :: string

text \<open>
  The fields of the imported types that the file reads. \<open>Spec_VnetSubnetID\<close> is the
  pointer \<^verbatim>\<open>nodeClass.Spec.VnetSubnetID\<close> (\<open>None\<close> is nil), \<open>Spec_Tags\<close> the map
  \<^verbatim>\<open>nodeClass.Spec.Tags\<close>. \<open>Options\<close> is what \<^verbatim>\<open>options.FromContext(ctx)\<close> returns.
\<close>

record AKSNodeClass =
  Spec_VnetSubnetID :: "string option"
  Spec_Tags :: mapref

record NodeClaim =
  NodeClaim_Labels :: mapref

datatype NodeSelectorOperator =
  NodeSelectorOpIn | NodeSelectorOpNotIn | NodeSelectorOpExists | NodeSelectorOpDoesNotExist

record Requirement =
  Key :: string
  Operator :: NodeSelectorOperator
  Values :: "string list"

record InstanceType =
  Name :: string
  Requirements :: "Requirement list"

record Options =
  ctx_ClusterName :: string
  ctx_ClusterID :: string
  ctx_APIServerName :: string
  ctx_KubeletClientTLSBootstrapToken :: string
  ctx_NetworkPlugin :: string
  ctx_NetworkPolicy :: string

record StaticParameters =
  ClusterName :: string
  ClusterEndpoint :: string
  Tags :: mapref
  Labels :: mapref
  CABundle :: "string option"
  Arch :: string
  GPUNode :: bool
  GPUDriverVersion :: string
  GPUImageSHA :: string
  TenantID :: string
  SubscriptionID :: string
  UserAssignedIdentityID :: string
  ResourceGroup :: string
  Location :: string
  ClusterID :: string
  APIServerName :: string
  KubeletClientTLSBootstrapToken :: string
  NetworkPlugin :: string
  NetworkPolicy :: string
  KubernetesVersion :: string

text \<open>
  \<^verbatim>\<open>parameters.Parameters\<close> embeds \<^verbatim>\<open>*StaticParameters\<close> and adds the boot-script
  descriptor and the image. \<open>UserData_Script\<close> is what \<^verbatim>\<open>UserData.Script()\<close> returns:
  the rendered script or an error.
\<close>

record 'e Parameters = StaticParameters +
  UserData_Script :: "'e + string"
  ImageID :: string

text \<open>
  The external collaborators of one run, each by what it returns: the environment, the
  image provider's cluster version, the image-family resolver (which is handed the store
  and may allocate in it), the compatibility test of the scheduling package (\<open>None\<close> is
  a nil error) and the SKU classifiers.
\<close>

record 'e externals =
  Getenv :: "string \<Rightarrow> string"
  KubeServerVersion :: "'e + string"
  Resolve :: "gomap list \<Rightarrow> AKSNodeClass \<Rightarrow> NodeClaim \<Rightarrow> InstanceType \<Rightarrow> StaticParameters
               \<Rightarrow> ('e + 'e Parameters) \<times> gomap list"
  Compatible :: "Requirement list \<Rightarrow> Requirement list \<Rightarrow> 'e option"
  IsNvidiaEnabledSKU :: "string \<Rightarrow> bool"
  GetGPUDriverVersion :: "string \<Rightarrow> string"
  GetAKSGPUImageSHA :: "string \<Rightarrow> string"

definition NewRequirement :: "string \<Rightarrow> NodeSelectorOperator \<Rightarrow> string list \<Rightarrow> Requirement" where
  "NewRequirement k operator vs = \<lparr>Key = k, Operator = operator, Values = vs\<rparr>"

definition NewRequirements :: "Requirement list \<Rightarrow> Requirement list" where
  "NewRequirements rs = rs"

section \<open>The functions of the file\<close>

text \<open>
  \<^verbatim>\<open>getVnetLabelValues\<close>. The arguments of \<open>lo_Ternary\<close> are evaluated before the call, so
  \<^verbatim>\<open>*nodeClass.Spec.VnetSubnetID\<close> is dereferenced whether or not the pointer is nil. The
  three index expressions of the map literal are evaluated in the order they are written.
\<close>

definition getVnetLabelValues :: "'e externals \<Rightarrow> world \<Rightarrow> AKSNodeClass \<Rightarrow> mapref outcome \<times> world" where
  "getVnetLabelValues ext w nodeClass =
     (case Spec_VnetSubnetID nodeClass of
        None \<Rightarrow> (Panic NilPointerDereference, w)
      | Some pointee \<Rightarrow>
          (let vnetSubnetID = lo_Ternary (Spec_VnetSubnetID nodeClass \<noteq> None) pointee
                                (Getenv ext ''AZURE_SUBNET_ID'');
               vnetSubnetParts = strings_Split vnetSubnetID (CHR ''/'')
           in case index vnetSubnetParts (int (length vnetSubnetParts) - 3) of
                Panic pn \<Rightarrow> (Panic pn, w)
              | Return networkName \<Rightarrow>
                 (case index vnetSubnetParts (int (length vnetSubnetParts) - 1) of
                    Panic pn \<Rightarrow> (Panic pn, w)
                  | Return subnetName \<Rightarrow>
                     (case index vnetSubnetParts 2 of
                        Panic pn \<Rightarrow> (Panic pn, w)
                      | Return subscription \<Rightarrow>
                         (case make_map w
                                 [vnetDataPlaneLabel \<mapsto> ciliumNetworkPlugin,
                                  vnetNetworkNameLabel \<mapsto> networkName,
                                  vnetSubnetNameLabel \<mapsto> subnetName,
                                  vnetSubscriptionIDLabel \<mapsto> subscription,
                                  vnetGUIDLabel \<mapsto> Getenv ext ''AZURE_VNET_GUID'',
                                  vnetPodNetworkTypeLabel \<mapsto> overlayNetworkType] of
                            (vnetLabels, w') \<Rightarrow> (Return vnetLabels, w'))))))"

text \<open>\<^verbatim>\<open>mergeTags\<close>: the union of the sources, then every key with \<^verbatim>\<open>/\<close> replaced by \<^verbatim>\<open>_\<close>.\<close>

definition arm_entry :: "string \<Rightarrow> string \<Rightarrow> string \<times> string" where
  "arm_entry k v = (strings_ReplaceAll k (CHR ''/'') (CHR ''_''), to_StringPtr v)"

definition mergeTags :: "string list \<Rightarrow> world \<Rightarrow> mapref list \<Rightarrow> mapref \<times> world" where
  "mergeTags order w tags =
     (case lo_Assign w tags of
        (assigned, w1) \<Rightarrow> lo_MapEntries order w1 assigned arm_entry)"

text \<open>\<^verbatim>\<open>getStaticParameters\<close>. The literal leaves \<open>KubernetesVersion\<close> at its zero value.\<close>

definition getStaticParameters ::
  "'e externals \<Rightarrow> Provider \<Rightarrow> world \<Rightarrow> Options \<Rightarrow> InstanceType \<Rightarrow> AKSNodeClass \<Rightarrow> mapref
     \<Rightarrow> StaticParameters outcome \<times> world" where
  "getStaticParameters ext p w ctx instanceType nodeClass labels =
     (let arch = (if Compatible ext (Requirements instanceType)
                       (NewRequirements
                          [NewRequirement LabelArchStable NodeSelectorOpIn [ArchitectureArm64]])
                     = None
                  then ArchitectureArm64 else ArchitectureAmd64)
      in case getVnetLabelValues ext w nodeClass of
           (Panic pn, w1) \<Rightarrow> (Panic pn, w1)
         | (Return vnetLabels, w1) \<Rightarrow>
             (case lo_Assign w1 [labels, vnetLabels] of
                (labels', w2) \<Rightarrow>
                  (Return \<lparr>ClusterName = ctx_ClusterName ctx,
                           ClusterEndpoint = clusterEndpoint p,
                           Tags = Spec_Tags nodeClass,
                           Labels = labels',
                           CABundle = caBundle p,
                           Arch = arch,
                           GPUNode = IsNvidiaEnabledSKU ext (Name instanceType),
                           GPUDriverVersion = GetGPUDriverVersion ext (Name instanceType),
                           GPUImageSHA = GetAKSGPUImageSHA ext (Name instanceType),
                           TenantID = tenantID p,
                           SubscriptionID = subscriptionID p,
                           UserAssignedIdentityID = userAssignedIdentityID p,
                           ResourceGroup = resourceGroup p,
                           Location = location p,
                           ClusterID = ctx_ClusterID ctx,
                           APIServerName = ctx_APIServerName ctx,
                           KubeletClientTLSBootstrapToken = ctx_KubeletClientTLSBootstrapToken ctx,
                           NetworkPlugin = ctx_NetworkPlugin ctx,
                           NetworkPolicy = ctx_NetworkPolicy ctx,
                           KubernetesVersion = []\<rparr>, w2)))"

text \<open>
  \<^verbatim>\<open>createLaunchTemplate\<close> returns the pair \<^verbatim>\<open>(*Template, error)\<close>: \<open>None\<close> in the first
  component is the nil template, \<open>None\<close> in the second the nil error.
\<close>

definition createLaunchTemplate ::
  "string list \<Rightarrow> world \<Rightarrow> 'e Parameters \<Rightarrow> (Template option \<times> 'e option) \<times> world" where
  "createLaunchTemplate order w opts =
     (let w1 = w\<lparr>calls := calls w @ [Script_call]\<rparr>
      in case UserData_Script opts of
           Inl err \<Rightarrow> ((None, Some err), w1)
         | Inr userData \<Rightarrow>
             (case make_map w1 [karpenterManagedTagKey \<mapsto> ClusterName opts] of
                (marker, w2) \<Rightarrow>
                  (case mergeTags order w2 [Tags opts, marker] of
                     (azureTags, w3) \<Rightarrow>
                       ((Some \<lparr>T_UserData = userData, T_ImageID = ImageID opts,
                               T_Tags = azureTags\<rparr>, None), w3))))"

definition GetTemplate ::
  "'e externals \<Rightarrow> string list \<Rightarrow> Provider \<Rightarrow> world \<Rightarrow> Options \<Rightarrow> AKSNodeClass \<Rightarrow> NodeClaim
     \<Rightarrow> InstanceType \<Rightarrow> mapref \<Rightarrow> (Template option \<times> 'e option) outcome \<times> world" where
  "GetTemplate ext order p w ctx nodeClass nodeClaim instanceType additionalLabels =
     (case lo_Assign w [NodeClaim_Labels nodeClaim, additionalLabels] of
        (labels, w0) \<Rightarrow>
          (case getStaticParameters ext p w0 ctx instanceType nodeClass labels of
             (Panic pn, w1) \<Rightarrow> (Panic pn, w1)
           | (Return staticParameters, w1) \<Rightarrow>
               (let w2 = w1\<lparr>calls := calls w1 @ [KubeServerVersion_call]\<rparr>
                in case KubeServerVersion ext of
                     Inl err \<Rightarrow> (Return (None, Some err), w2)
                   | Inr kubeServerVersion \<Rightarrow>
                       (case Resolve ext (heap w2) nodeClass nodeClaim instanceType
                               (staticParameters\<lparr>KubernetesVersion := kubeServerVersion\<rparr>) of
                          (resolved, h3) \<Rightarrow>
                            (let w3 = \<lparr>heap = h3, calls = calls w2 @ [Resolve_call]\<rparr>
                             in case resolved of
                                  Inl err \<Rightarrow> (Return (None, Some err), w3)
                                | Inr templateParameters \<Rightarrow>
                                    (case createLaunchTemplate order w3 templateParameters of
                                       ((launchTemplate, Some err), w4) \<Rightarrow>
                                          (Return (None, Some err), w4)
                                     | ((launchTemplate, None), w4) \<Rightarrow>
                                          (Return (launchTemplate, None), w4)))))))"

section \<open>Reference definitions\<close>

text \<open>
  In the words of the specification of the tag merger: the value a key has in the latest
  source that contains it, \<open>None\<close> when no source does.
\<close>

fun latest_source_value :: "gomap list \<Rightarrow> string \<Rightarrow> string option" where
  "latest_source_value [] k = None"
| "latest_source_value (m # ms) k =
     (case latest_source_value ms k of Some v \<Rightarrow> Some v | None \<Rightarrow> m k)"

text \<open>A reference a caller can hold in a store: nil, or the address of an allocated table.\<close>

definition valid_ref :: "gomap list \<Rightarrow> mapref \<Rightarrow> bool" where
  "valid_ref h r = (case r of NilMap \<Rightarrow> True | MapAt a \<Rightarrow> a < length h)"

text \<open>
  Modelled from the spec: \<^verbatim>\<open>Requirements.Compatible\<close> of the scheduling package, which is
  not among the sources; the specification describes it as "a compatibility/intersection
  test against the instance type's advertised requirement set". Here for requirements
  with the operator \<^verbatim>\<open>In\<close>: every incoming requirement shares a value with every advertised
  requirement on the same key. It is used for the example instance types only; the
  functions above take the test as a parameter.
\<close>

definition Compatible_intersects :: "Requirement list \<Rightarrow> Requirement list \<Rightarrow> string option" where
  "Compatible_intersects advertised incoming =
     (if list_all (\<lambda>i. list_all (\<lambda>r. Key r \<noteq> Key i \<or> list_ex (\<lambda>v. v \<in> set (Values i)) (Values r))
                              advertised) incoming
      then None else Some ''incompatible requirements'')"

section \<open>Example inputs\<close>

definition example_subnet_id :: string where
  "example_subnet_id =
     ''/subscriptions/sub1/resourceGroups/rg/providers/Microsoft.Network/virtualNetworks/vnet1/subnets/subnet1''"

definition example_env :: "string \<Rightarrow> string" where
  "example_env k = (if k = ''AZURE_SUBNET_ID'' then example_subnet_id
                    else if k = ''AZURE_VNET_GUID'' then ''guid1'' else [])"

text \<open>A resolver that passes the static parameters on and adds a script and an image.\<close>

definition example_resolver ::
  "gomap list \<Rightarrow> AKSNodeClass \<Rightarrow> NodeClaim \<Rightarrow> InstanceType \<Rightarrow> StaticParameters
     \<Rightarrow> (string + string Parameters) \<times> gomap list" where
  "example_resolver h nodeClass nodeClaim instanceType sp =
     (Inr (StaticParameters.extend sp (Parameters.fields (Inr ''#!/bin/bash'') ''image1'')), h)"

text \<open>A resolver that finds no image.\<close>

definition failing_resolver ::
  "gomap list \<Rightarrow> AKSNodeClass \<Rightarrow> NodeClaim \<Rightarrow> InstanceType \<Rightarrow> StaticParameters
     \<Rightarrow> (string + string Parameters) \<times> gomap list" where
  "failing_resolver h nodeClass nodeClaim instanceType sp = (Inl ''no image for arch'', h)"

text \<open>
  A resolver that shows the labels it is handed: the script is the value of the label
  \<^verbatim>\<open>team\<close>, the image the value of the label \<^verbatim>\<open>kubernetes.azure.com/network-name\<close>.
\<close>

definition label_echo_resolver ::
  "gomap list \<Rightarrow> AKSNodeClass \<Rightarrow> NodeClaim \<Rightarrow> InstanceType \<Rightarrow> StaticParameters
     \<Rightarrow> (string + string Parameters) \<times> gomap list" where
  "label_echo_resolver h nodeClass nodeClaim instanceType sp =
     (Inr (StaticParameters.extend sp
             (Parameters.fields
                (Inr (case deref h (Labels sp) ''team'' of None \<Rightarrow> [] | Some x \<Rightarrow> x))
                (case deref h (Labels sp) ''kubernetes.azure.com/network-name'' of
                   None \<Rightarrow> [] | Some x \<Rightarrow> x))), h)"

definition example_externals :: "string externals" where
  "example_externals =
     \<lparr>Getenv = example_env,
      KubeServerVersion = Inr ''1.29.0'',
      Resolve = example_resolver,
      Compatible = Compatible_intersects,
      IsNvidiaEnabledSKU = (\<lambda>sku. False),
      GetGPUDriverVersion = (\<lambda>sku. []),
      GetAKSGPUImageSHA = (\<lambda>sku. [])\<rparr>"

definition example_provider :: Provider where
  "example_provider =
     \<lparr>caBundle = None, clusterEndpoint = ''https://c1.example'', tenantID = ''t1'',
      subscriptionID = ''sub1'', userAssignedIdentityID = ''id1'', resourceGroup = ''rg'',
      location = ''westeurope''\<rparr>"

definition example_options :: Options where
  "example_options =
     \<lparr>ctx_ClusterName = ''c1'', ctx_ClusterID = ''cid1'', ctx_APIServerName = ''api1'',
      ctx_KubeletClientTLSBootstrapToken = ''tok'', ctx_NetworkPlugin = ''azure'',
      ctx_NetworkPolicy = ''cilium''\<rparr>"

text \<open>
  A store with four tables: the labels of a node claim (address 0), additional labels
  (address 1), the tags of a node class (address 2), and tags that already hold the
  sanitized form of the managed-by key (address 3).
\<close>

definition example_world :: world where
  "example_world =
     \<lparr>heap = [[''team'' \<mapsto> ''a'', ''kubernetes.azure.com/network-name'' \<mapsto> ''mine''],
              [''team'' \<mapsto> ''b''],
              [''a/b'' \<mapsto> ''1''],
              [''karpenter.azure.com_cluster'' \<mapsto> ''other'']],
      calls = []\<rparr>"

definition example_nodeClass :: AKSNodeClass where
  "example_nodeClass = \<lparr>Spec_VnetSubnetID = Some example_subnet_id, Spec_Tags = MapAt 2\<rparr>"

definition colliding_nodeClass :: AKSNodeClass where
  "colliding_nodeClass = \<lparr>Spec_VnetSubnetID = Some example_subnet_id, Spec_Tags = MapAt 3\<rparr>"

definition nil_subnet_nodeClass :: AKSNodeClass where
  "nil_subnet_nodeClass = \<lparr>Spec_VnetSubnetID = None, Spec_Tags = MapAt 2\<rparr>"

definition empty_subnet_nodeClass :: AKSNodeClass where
  "empty_subnet_nodeClass = \<lparr>Spec_VnetSubnetID = Some [], Spec_Tags = MapAt 2\<rparr>"

definition example_nodeClaim :: NodeClaim where
  "example_nodeClaim = \<lparr>NodeClaim_Labels = MapAt 0\<rparr>"

definition amd64_instanceType :: InstanceType where
  "amd64_instanceType =
     \<lparr>Name = ''Standard_D2s_v3'',
      Requirements = [NewRequirement LabelArchStable NodeSelectorOpIn [ArchitectureAmd64]]\<rparr>"

definition both_instanceType :: InstanceType where
  "both_instanceType =
     \<lparr>Name = ''Standard_X'',
      Requirements = [NewRequirement LabelArchStable NodeSelectorOpIn
                        [ArchitectureAmd64, ArchitectureArm64]]\<rparr>"

text \<open>Resolved parameters whose tags are the table at address 2.\<close>

definition example_parameters :: "string Parameters" where
  "example_parameters =
     \<lparr>ClusterName = ''c1'', ClusterEndpoint = ''https://c1.example'', Tags = MapAt 2,
      Labels = NilMap, CABundle = None, Arch = ''amd64'', GPUNode = False,
      GPUDriverVersion = [], GPUImageSHA = [], TenantID = ''t1'', SubscriptionID = ''sub1'',
      UserAssignedIdentityID = ''id1'', ResourceGroup = ''rg'', Location = ''westeurope'',
      ClusterID = ''cid1'', APIServerName = ''api1'', KubeletClientTLSBootstrapToken = ''tok'',
      NetworkPlugin = ''azure'', NetworkPolicy = ''cilium'', KubernetesVersion = ''1.29.0'',
      UserData_Script = Inr ''#!/bin/bash'', ImageID = ''image1''\<rparr>"

text \<open>Two tag sources that each hold both \<^verbatim>\<open>a/b\<close> and \<^verbatim>\<open>a_b\<close>.\<close>

definition clash_world :: world where
  "clash_world =
     \<lparr>heap = [[''a/b'' \<mapsto> ''1'', ''a_b'' \<mapsto> ''x''],
              [''a/b'' \<mapsto> ''3'', ''a_b'' \<mapsto> ''2'']],
      calls = []\<rparr>"

text \<open>The two tag sources of the specification's merge scenario.\<close>

definition scenario_world :: world where
  "scenario_world =
     \<lparr>heap = [[''a/b'' \<mapsto> ''1''],
              [''c'' \<mapsto> ''2'', ''a/b'' \<mapsto> ''3'']],
      calls = []\<rparr>"

section \<open>Facts about the library functions\<close>

lemma strings_Split_nonempty: "strings_Split s c \<noteq> []"
  by (induction s) (auto split: list.splits)

lemma deref_append: "a < length h \<Longrightarrow> deref (h @ xs) (MapAt a) = deref h (MapAt a)"
  by (simp add: deref_def nth_append)

lemma deref_fresh: "deref (h @ [m]) (MapAt (length h)) = m"
  by (simp add: deref_def)

lemma getVnetLabelValues_short:
  assumes "Spec_VnetSubnetID nodeClass = Some s"
    and "length (strings_Split s (CHR ''/'')) < 3"
  shows "getVnetLabelValues ext w nodeClass =
     (Panic (IndexOutOfRange (int (length (strings_Split s (CHR ''/''))) - 3)), w)"
  using assms by (simp add: getVnetLabelValues_def lo_Ternary_def index_def Let_def)

lemma getVnetLabelValues_nil:
  "Spec_VnetSubnetID nodeClass = None \<Longrightarrow> getVnetLabelValues ext w nodeClass = (Panic NilPointerDereference, w)"
  by (simp add: getVnetLabelValues_def)

lemma getVnetLabelValues_ok:
  assumes "Spec_VnetSubnetID nodeClass = Some s"
    and "parts = strings_Split s (CHR ''/'')"
    and "3 \<le> length parts"
  shows "getVnetLabelValues ext w nodeClass =
     (Return (MapAt (length (heap w))),
      w\<lparr>heap := heap w @
         [[vnetDataPlaneLabel \<mapsto> ciliumNetworkPlugin,
           vnetNetworkNameLabel \<mapsto> parts ! (length parts - 3),
           vnetSubnetNameLabel \<mapsto> parts ! (length parts - 1),
           vnetSubscriptionIDLabel \<mapsto> parts ! 2,
           vnetGUIDLabel \<mapsto> Getenv ext ''AZURE_VNET_GUID'',
           vnetPodNetworkTypeLabel \<mapsto> overlayNetworkType]]\<rparr>)"
proof -
  have i1: "index parts (int (length parts) - 3) = Return (parts ! (length parts - 3))"
    using assms(3) by (auto simp: index_def nat_diff_distrib)
  have i2: "index parts (int (length parts) - 1) = Return (parts ! (length parts - 1))"
    using assms(3) by (auto simp: index_def nat_diff_distrib)
  have i3: "index parts 2 = Return (parts ! 2)"
    using assms(3) by (simp add: index_def)
  show ?thesis
    using assms(1) i1 i2 i3 unfolding assms(2)
    by (simp add: getVnetLabelValues_def lo_Ternary_def Let_def make_map_def)
qed

lemma assign_maps_Nil: "assign_maps [] = Map.empty"
  by (simp add: assign_maps_def)

lemma assign_maps_snoc: "assign_maps (ms @ [m]) = assign_maps ms ++ m"
  by (simp add: assign_maps_def)

lemma assign_maps_append: "assign_maps (xs @ ys) = assign_maps xs ++ assign_maps ys"
proof (induction ys rule: rev_induct)
  case Nil
  show ?case by (simp add: assign_maps_Nil)
next
  case (snoc y ys)
  have "assign_maps (xs @ ys @ [y]) = assign_maps ((xs @ ys) @ [y])" by simp
  also have "\<dots> = assign_maps (xs @ ys) ++ y" by (rule assign_maps_snoc)
  also have "\<dots> = assign_maps xs ++ (assign_maps ys ++ y)" by (simp add: snoc.IH)
  also have "\<dots> = assign_maps xs ++ assign_maps (ys @ [y])" by (simp add: assign_maps_snoc)
  finally show ?case .
qed

lemma assign_maps_Cons: "assign_maps (m # ms) = m ++ assign_maps ms"
  using assign_maps_append [of "[m]" ms] by (simp add: assign_maps_def)

lemma assign_maps_latest: "assign_maps ms k = latest_source_value ms k"
  by (induction ms) (simp_all add: assign_maps_Nil assign_maps_Cons map_add_def split: option.splits)

lemma map_entries_Nil: "map_entries [] m f = Map.empty"
  by (simp add: map_entries_def)

lemma map_entries_snoc:
  "map_entries (ks @ [k]) m f =
     (case m k of None \<Rightarrow> map_entries ks m f
      | Some v \<Rightarrow> (map_entries ks m f)(fst (f k v) \<mapsto> snd (f k v)))"
  by (simp add: map_entries_def split: option.splits prod.splits)

lemma map_entries_arm_snoc:
  "map_entries (ks @ [k]) m arm_entry =
     (case m k of None \<Rightarrow> map_entries ks m arm_entry
      | Some v \<Rightarrow> (map_entries ks m arm_entry)(strings_ReplaceAll k (CHR ''/'') (CHR ''_'') \<mapsto> v))"
proof -
  have "fst (arm_entry k v) = strings_ReplaceAll k (CHR ''/'') (CHR ''_'')"
    and "snd (arm_entry k v) = v" for v
    by (simp_all add: arm_entry_def to_StringPtr_def)
  then show ?thesis
    by (simp add: map_entries_snoc split: option.splits)
qed

lemma slash_free: "CHR ''/'' \<notin> set (strings_ReplaceAll k (CHR ''/'') (CHR ''_''))"
  by (auto simp: strings_ReplaceAll_def)

lemma dom_map_entries:
  "dom (map_entries ks m arm_entry) =
     (\<lambda>k. strings_ReplaceAll k (CHR ''/'') (CHR ''_'')) ` (set ks \<inter> dom m)"
proof (induction ks rule: rev_induct)
  case Nil
  show ?case by (simp add: map_entries_Nil)
next
  case (snoc k ks)
  show ?case
  proof (cases "m k")
    case None
    then have "set (ks @ [k]) \<inter> dom m = set ks \<inter> dom m" by auto
    with None snoc.IH show ?thesis by (simp add: map_entries_arm_snoc)
  next
    case (Some v)
    then have "set (ks @ [k]) \<inter> dom m = insert k (set ks \<inter> dom m)" by auto
    have "map_entries (ks @ [k]) m arm_entry =
            (map_entries ks m arm_entry)(strings_ReplaceAll k (CHR ''/'') (CHR ''_'') \<mapsto> v)"
      by (simp add: map_entries_arm_snoc Some)
    then have "dom (map_entries (ks @ [k]) m arm_entry) =
            insert (strings_ReplaceAll k (CHR ''/'') (CHR ''_'')) (dom (map_entries ks m arm_entry))"
      by (simp only: dom_fun_upd) simp
    also have "\<dots> = (\<lambda>k. strings_ReplaceAll k (CHR ''/'') (CHR ''_'')) ` insert k (set ks \<inter> dom m)"
      by (simp only: snoc.IH image_insert)
    finally show ?thesis
      using \<open>set (ks @ [k]) \<inter> dom m = insert k (set ks \<inter> dom m)\<close> by simp
  qed
qed

lemma map_entries_origin:
  "map_entries ks m arm_entry k' = Some v \<Longrightarrow>
     \<exists>k. k \<in> set ks \<and> strings_ReplaceAll k (CHR ''/'') (CHR ''_'') = k' \<and> m k = Some v"
proof (induction ks rule: rev_induct)
  case Nil
  then show ?case by (simp add: map_entries_Nil)
next
  case (snoc k ks)
  show ?case
  proof (cases "m k")
    case None
    with snoc show ?thesis by (auto simp: map_entries_arm_snoc)
  next
    case (Some u)
    with snoc show ?thesis
      by (auto simp: map_entries_arm_snoc split: if_splits)
  qed
qed

lemma map_entries_unclashed:
  assumes "k \<in> set ks" and "m k = Some v"
    and "\<And>k'. k' \<in> set ks \<Longrightarrow> k' \<in> dom m \<Longrightarrow>
           strings_ReplaceAll k' (CHR ''/'') (CHR ''_'') = strings_ReplaceAll k (CHR ''/'') (CHR ''_'') \<Longrightarrow> k' = k"
  shows "map_entries ks m arm_entry (strings_ReplaceAll k (CHR ''/'') (CHR ''_'')) = Some v"
  using assms
proof (induction ks rule: rev_induct)
  case Nil
  then show ?case by simp
next
  case (snoc x xs)
  show ?case
  proof (cases "m x")
    case None
    with snoc.prems have "k \<in> set xs" by auto
    with snoc None show ?thesis by (auto simp: map_entries_arm_snoc)
  next
    case (Some u)
    show ?thesis
    proof (cases "strings_ReplaceAll x (CHR ''/'') (CHR ''_'') = strings_ReplaceAll k (CHR ''/'') (CHR ''_'')")
      case True
      with snoc.prems(3) [of x] Some have "x = k" by auto
      with Some snoc.prems(2) show ?thesis
        by (simp add: map_entries_arm_snoc)
    next
      case False
      then have "x \<noteq> k" by auto
      with snoc.prems have "k \<in> set xs" by auto
      with snoc False Some show ?thesis
        by (auto simp: map_entries_arm_snoc)
    qed
  qed
qed

lemma mergeTags_eq:
  "mergeTags order w tags =
     (MapAt (Suc (length (heap w))),
      w\<lparr>heap := heap w @ [assign_maps (map (deref (heap w)) tags),
                          map_entries order (assign_maps (map (deref (heap w)) tags)) arm_entry]\<rparr>)"
  by (simp add: mergeTags_def lo_Assign_def lo_MapEntries_def make_map_def deref_def)

section \<open>Facts about the functions of the file\<close>

lemma getVnetLabelValues_cases:
  assumes "getVnetLabelValues ext w nodeClass = (out, w')"
  shows "(\<exists>pn. out = Panic pn \<and> w' = w) \<or>
         (\<exists>s V. Spec_VnetSubnetID nodeClass = Some s \<and> 3 \<le> length (strings_Split s (CHR ''/''))
               \<and> out = Return (MapAt (length (heap w))) \<and> w' = w\<lparr>heap := heap w @ [V]\<rparr>)"
proof (cases "Spec_VnetSubnetID nodeClass")
  case None
  with assms show ?thesis by (auto simp: getVnetLabelValues_nil)
next
  case (Some s)
  show ?thesis
  proof (cases "length (strings_Split s (CHR ''/'')) < 3")
    case True
    with assms Some show ?thesis by (auto simp: getVnetLabelValues_short)
  next
    case False
    then have "3 \<le> length (strings_Split s (CHR ''/''))" by simp
    with assms Some show ?thesis
      using getVnetLabelValues_ok [OF Some refl, of ext w] by auto
  qed
qed

lemma getStaticParameters_Panic:
  "getVnetLabelValues ext w nodeClass = (Panic pn, w1) \<Longrightarrow>
     getStaticParameters ext p w ctx instanceType nodeClass labels = (Panic pn, w1)"
  by (simp add: getStaticParameters_def)

lemma getStaticParameters_ReturnI:
  assumes "getVnetLabelValues ext w nodeClass = (Return vl, w1)"
  shows "\<exists>sp. getStaticParameters ext p w ctx instanceType nodeClass labels =
           (Return sp, w1\<lparr>heap := heap w1 @ [assign_maps [deref (heap w1) labels, deref (heap w1) vl]]\<rparr>)
         \<and> Labels sp = MapAt (length (heap w1))
         \<and> Tags sp = Spec_Tags nodeClass
         \<and> ClusterName sp = ctx_ClusterName ctx
         \<and> KubernetesVersion sp = []
         \<and> Arch sp = (if Compatible ext (Requirements instanceType)
                           [NewRequirement LabelArchStable NodeSelectorOpIn [ArchitectureArm64]] = None
                       then ArchitectureArm64 else ArchitectureAmd64)"
  using assms
  by (simp add: getStaticParameters_def lo_Assign_def make_map_def NewRequirements_def)

lemma getStaticParameters_ReturnD:
  assumes "getStaticParameters ext p w ctx instanceType nodeClass labels = (Return sp, w2)"
  shows "\<exists>vl w1. getVnetLabelValues ext w nodeClass = (Return vl, w1)
         \<and> w2 = w1\<lparr>heap := heap w1 @ [assign_maps [deref (heap w1) labels, deref (heap w1) vl]]\<rparr>
         \<and> Labels sp = MapAt (length (heap w1))
         \<and> Tags sp = Spec_Tags nodeClass
         \<and> ClusterName sp = ctx_ClusterName ctx
         \<and> KubernetesVersion sp = []
         \<and> Arch sp = (if Compatible ext (Requirements instanceType)
                           [NewRequirement LabelArchStable NodeSelectorOpIn [ArchitectureArm64]] = None
                       then ArchitectureArm64 else ArchitectureAmd64)"
proof (cases "getVnetLabelValues ext w nodeClass")
  case (Pair out w1)
  show ?thesis
  proof (cases out)
    case (Panic pn)
    with Pair assms show ?thesis by (simp add: getStaticParameters_Panic)
  next
    case (Return vl)
    with Pair have g: "getVnetLabelValues ext w nodeClass = (Return vl, w1)" by simp
    from getStaticParameters_ReturnI [OF g, of p ctx instanceType labels] assms g
    show ?thesis by auto
  qed
qed

lemma createLaunchTemplate_Inl:
  "UserData_Script opts = Inl e \<Longrightarrow>
     createLaunchTemplate order w opts = ((None, Some e), w\<lparr>calls := calls w @ [Script_call]\<rparr>)"
  by (simp add: createLaunchTemplate_def)

lemma createLaunchTemplate_Inr:
  assumes "UserData_Script opts = Inr u" and "valid_ref (heap w) (Tags opts)"
  shows "createLaunchTemplate order w opts =
     ((Some \<lparr>T_UserData = u, T_ImageID = ImageID opts, T_Tags = MapAt (length (heap w) + 2)\<rparr>, None),
      \<lparr>heap = heap w @
         [[karpenterManagedTagKey \<mapsto> ClusterName opts],
          (deref (heap w) (Tags opts))(karpenterManagedTagKey \<mapsto> ClusterName opts),
          map_entries order ((deref (heap w) (Tags opts))(karpenterManagedTagKey \<mapsto> ClusterName opts))
            arm_entry],
       calls = calls w @ [Script_call]\<rparr>)"
proof -
  have d: "deref (heap w @ [m]) (Tags opts) = deref (heap w) (Tags opts)" for m
    using assms(2) by (cases "Tags opts") (simp_all add: valid_ref_def deref_def nth_append)
  have u: "assign_maps [deref (heap w) (Tags opts), [karpenterManagedTagKey \<mapsto> ClusterName opts]]
             = (deref (heap w) (Tags opts))(karpenterManagedTagKey \<mapsto> ClusterName opts)"
    by (simp add: assign_maps_def)
  show ?thesis
    using assms(1)
    by (simp add: createLaunchTemplate_def make_map_def mergeTags_eq d deref_fresh u)
qed

lemma lo_Assign_eq:
  "lo_Assign w maps =
     (MapAt (length (heap w)), w\<lparr>heap := heap w @ [assign_maps (map (deref (heap w)) maps)]\<rparr>)"
  by (simp add: lo_Assign_def make_map_def)

lemma getStaticParameters_frame:
  assumes "getStaticParameters ext p w ctx instanceType nodeClass labels = (out, w')"
  shows "calls w' = calls w \<and> prefix (heap w) (heap w')"
proof (cases "getVnetLabelValues ext w nodeClass")
  case (Pair vout w1)
  from getVnetLabelValues_cases [OF Pair]
  have f1: "calls w1 = calls w \<and> prefix (heap w) (heap w1)" by auto
  show ?thesis
  proof (cases vout)
    case (Panic pn)
    with Pair assms f1 show ?thesis by (simp add: getStaticParameters_Panic)
  next
    case (Return vl)
    with Pair have g: "getVnetLabelValues ext w nodeClass = (Return vl, w1)" by simp
    from getStaticParameters_ReturnI [OF g, of p ctx instanceType labels] assms
    have "w' = w1\<lparr>heap := heap w1 @ [assign_maps [deref (heap w1) labels, deref (heap w1) vl]]\<rparr>"
      by auto
    with f1 show ?thesis by (auto simp: prefix_def)
  qed
qed

lemma GetTemplate_Panic:
  assumes "lo_Assign w [NodeClaim_Labels nodeClaim, additionalLabels] = (labels, w0)"
    and "getStaticParameters ext p w0 ctx instanceType nodeClass labels = (Panic pn, w1)"
  shows "GetTemplate ext order p w ctx nodeClass nodeClaim instanceType additionalLabels = (Panic pn, w1)"
  using assms by (simp add: GetTemplate_def)

lemma GetTemplate_version_Inl:
  assumes "lo_Assign w [NodeClaim_Labels nodeClaim, additionalLabels] = (labels, w0)"
    and "getStaticParameters ext p w0 ctx instanceType nodeClass labels = (Return sp, w1)"
    and "KubeServerVersion ext = Inl e"
  shows "GetTemplate ext order p w ctx nodeClass nodeClaim instanceType additionalLabels =
           (Return (None, Some e), w1\<lparr>calls := calls w1 @ [KubeServerVersion_call]\<rparr>)"
  using assms by (simp add: GetTemplate_def)

lemma GetTemplate_resolve_Inl:
  assumes "lo_Assign w [NodeClaim_Labels nodeClaim, additionalLabels] = (labels, w0)"
    and "getStaticParameters ext p w0 ctx instanceType nodeClass labels = (Return sp, w1)"
    and "KubeServerVersion ext = Inr v"
    and "Resolve ext (heap w1) nodeClass nodeClaim instanceType (sp\<lparr>KubernetesVersion := v\<rparr>)
           = (Inl e, h3)"
  shows "GetTemplate ext order p w ctx nodeClass nodeClaim instanceType additionalLabels =
           (Return (None, Some e),
            \<lparr>heap = h3, calls = calls w1 @ [KubeServerVersion_call, Resolve_call]\<rparr>)"
  using assms by (simp add: GetTemplate_def)

lemma GetTemplate_script_Inl:
  assumes "lo_Assign w [NodeClaim_Labels nodeClaim, additionalLabels] = (labels, w0)"
    and "getStaticParameters ext p w0 ctx instanceType nodeClass labels = (Return sp, w1)"
    and "KubeServerVersion ext = Inr v"
    and "Resolve ext (heap w1) nodeClass nodeClaim instanceType (sp\<lparr>KubernetesVersion := v\<rparr>)
           = (Inr params, h3)"
    and "UserData_Script params = Inl e"
  shows "GetTemplate ext order p w ctx nodeClass nodeClaim instanceType additionalLabels =
           (Return (None, Some e),
            \<lparr>heap = h3, calls = calls w1 @ [KubeServerVersion_call, Resolve_call, Script_call]\<rparr>)"
  using assms by (simp add: GetTemplate_def createLaunchTemplate_Inl)

lemma GetTemplate_ok:
  assumes "lo_Assign w [NodeClaim_Labels nodeClaim, additionalLabels] = (labels, w0)"
    and "getStaticParameters ext p w0 ctx instanceType nodeClass labels = (Return sp, w1)"
    and "KubeServerVersion ext = Inr v"
    and "Resolve ext (heap w1) nodeClass nodeClaim instanceType (sp\<lparr>KubernetesVersion := v\<rparr>)
           = (Inr params, h3)"
    and "UserData_Script params = Inr u"
    and "valid_ref h3 (Tags params)"
  shows "GetTemplate ext order p w ctx nodeClass nodeClaim instanceType additionalLabels =
           (Return (Some \<lparr>T_UserData = u, T_ImageID = ImageID params,
                           T_Tags = MapAt (length h3 + 2)\<rparr>, None),
            \<lparr>heap = h3 @
               [[karpenterManagedTagKey \<mapsto> ClusterName params],
                (deref h3 (Tags params))(karpenterManagedTagKey \<mapsto> ClusterName params),
                map_entries order ((deref h3 (Tags params))(karpenterManagedTagKey \<mapsto> ClusterName params))
                  arm_entry],
             calls = calls w1 @ [KubeServerVersion_call, Resolve_call, Script_call]\<rparr>)"
proof -
  let ?w3 = "\<lparr>heap = h3, calls = calls w1 @ [KubeServerVersion_call, Resolve_call]\<rparr>"
  have v: "valid_ref (heap ?w3) (Tags params)" using assms(6) by simp
  from createLaunchTemplate_Inr [OF assms(5) v, of order] assms(1-4)
  show ?thesis by (simp add: GetTemplate_def)
qed

lemma example_split:
  "strings_Split example_subnet_id (CHR ''/'') =
     [[], ''subscriptions'', ''sub1'', ''resourceGroups'', ''rg'', ''providers'',
      ''Microsoft.Network'', ''virtualNetworks'', ''vnet1'', ''subnets'', ''subnet1'']"
  by (simp add: example_subnet_id_def)

section \<open>The claims\<close>

text \<open>
  C1 (as the code has it). The specification asks for a ConfigurationError when the subnet
  identifier has fewer than three segments. \<^verbatim>\<open>getVnetLabelValues\<close> returns a map and no
  error, so there is no error to return: when the node class holds an identifier whose
  split has fewer than three segments, the index \<^verbatim>\<open>len(vnetSubnetParts)-3\<close> is negative and
  the function panics with an index out of range, at that index, before any map is made.
\<close>

theorem getVnetLabelValues_malformed_panics:
  assumes "Spec_VnetSubnetID nodeClass = Some s"
    and "length (strings_Split s (CHR ''/'')) < 3"
  shows "getVnetLabelValues ext w nodeClass =
     (Panic (IndexOutOfRange (int (length (strings_Split s (CHR ''/''))) - 3)), w)"
  using assms by (rule getVnetLabelValues_short)

theorem getVnetLabelValues_malformed_panics_witness:
  "length (strings_Split ''vnet1/subnet1'' (CHR ''/'')) < 3
   \<and> getVnetLabelValues example_externals example_world
        \<lparr>Spec_VnetSubnetID = Some ''vnet1/subnet1'', Spec_Tags = NilMap\<rparr>
      = (Panic (IndexOutOfRange (- 1)), example_world)"
proof -
  have l: "length (strings_Split ''vnet1/subnet1'' (CHR ''/'')) < 3" by simp
  have s: "Spec_VnetSubnetID \<lparr>Spec_VnetSubnetID = Some ''vnet1/subnet1'', Spec_Tags = NilMap\<rparr>
             = Some ''vnet1/subnet1''" by simp
  from getVnetLabelValues_malformed_panics [OF s l, of example_externals example_world] l
  show ?thesis by simp
qed

text \<open>
  C1, the claim as stated fails: for the empty identifier the function does index out of
  bounds, at index \<open>-2\<close> of the one-element slice \<^verbatim>\<open>[""]\<close>, and panics.
\<close>

theorem getVnetLabelValues_empty_identifier_panics:
  "getVnetLabelValues example_externals example_world empty_subnet_nodeClass
     = (Panic (IndexOutOfRange (- 2)), example_world)"
  by (simp add: getVnetLabelValues_def empty_subnet_nodeClass_def lo_Ternary_def index_def)

text \<open>
  C2, the failing input. The node class has no subnet identifier and the environment
  supplies a well-formed one (eleven segments). The identifier of the environment is never
  used: \<^verbatim>\<open>*nodeClass.Spec.VnetSubnetID\<close> is an argument of \<^verbatim>\<open>lo.Ternary\<close> and is evaluated
  before the call, so the nil pointer is dereferenced and the function panics instead of
  returning the six labels.
\<close>

theorem getVnetLabelValues_nil_field_panics:
  "Spec_VnetSubnetID nil_subnet_nodeClass = None
   \<and> Getenv example_externals ''AZURE_SUBNET_ID'' = example_subnet_id
   \<and> length (strings_Split example_subnet_id (CHR ''/'')) = 11
   \<and> getVnetLabelValues example_externals example_world nil_subnet_nodeClass
        = (Panic NilPointerDereference, example_world)"
  by (simp add: getVnetLabelValues_def nil_subnet_nodeClass_def example_externals_def
        example_env_def example_split)

text \<open>
  C3. Once the static parameters are built, each step that fails ends the operation: the
  result is the nil template with the step's error, and the log of external calls ends
  with the failing step (a failed version lookup is the only call; a failed resolution
  follows the version lookup and no script is rendered; a failed rendering follows both).
  Whenever a template is returned the error is nil, all three steps have run and
  succeeded, and the template holds the rendered script and the resolved image.
\<close>

theorem GetTemplate_short_circuits:
  assumes "lo_Assign w [NodeClaim_Labels nodeClaim, additionalLabels] = (labels, w0)"
    and "getStaticParameters ext p w0 ctx instanceType nodeClass labels = (Return sp, w1)"
    and "Resolve ext (heap w1) nodeClass nodeClaim instanceType (sp\<lparr>KubernetesVersion := v\<rparr>)
           = (resolved, h3)"
    and "GetTemplate ext order p w ctx nodeClass nodeClaim instanceType additionalLabels = (out, w')"
  shows "(KubeServerVersion ext = Inl e \<longrightarrow>
            out = Return (None, Some e) \<and> calls w' = calls w @ [KubeServerVersion_call])
       \<and> (KubeServerVersion ext = Inr v \<and> resolved = Inl e \<longrightarrow>
            out = Return (None, Some e) \<and> calls w' = calls w @ [KubeServerVersion_call, Resolve_call])
       \<and> (KubeServerVersion ext = Inr v \<and> resolved = Inr params \<and> UserData_Script params = Inl e \<longrightarrow>
            out = Return (None, Some e)
            \<and> calls w' = calls w @ [KubeServerVersion_call, Resolve_call, Script_call])
       \<and> (\<forall>t err. out = Return (Some t, err) \<longrightarrow>
            err = None
            \<and> calls w' = calls w @ [KubeServerVersion_call, Resolve_call, Script_call]
            \<and> (\<exists>v' params'. KubeServerVersion ext = Inr v' \<and>
                  fst (Resolve ext (heap w1) nodeClass nodeClaim instanceType
                         (sp\<lparr>KubernetesVersion := v'\<rparr>)) = Inr params' \<and>
                  UserData_Script params' = Inr (T_UserData t) \<and> T_ImageID t = ImageID params'))"
proof -
  have c0: "calls w0 = calls w" using assms(1) by (auto simp: lo_Assign_eq)
  have c1: "calls w1 = calls w" using getStaticParameters_frame [OF assms(2)] c0 by simp
  have 1: "out = Return (None, Some e) \<and> calls w' = calls w @ [KubeServerVersion_call]"
    if "KubeServerVersion ext = Inl e"
    using GetTemplate_version_Inl [OF assms(1,2) that, of order] assms(4) c1 by auto
  have 2: "out = Return (None, Some e) \<and> calls w' = calls w @ [KubeServerVersion_call, Resolve_call]"
    if "KubeServerVersion ext = Inr v" "resolved = Inl e"
    using GetTemplate_resolve_Inl [OF assms(1,2) that(1), of e h3 order] assms(3,4) that(2) c1 by auto
  have 3: "out = Return (None, Some e)
        \<and> calls w' = calls w @ [KubeServerVersion_call, Resolve_call, Script_call]"
    if "KubeServerVersion ext = Inr v" "resolved = Inr params" "UserData_Script params = Inl e"
    using GetTemplate_script_Inl [OF assms(1,2) that(1) _ that(3), of h3 order] assms(3,4) that(2) c1
    by auto
  have 4: "err = None
        \<and> calls w' = calls w @ [KubeServerVersion_call, Resolve_call, Script_call]
        \<and> (\<exists>v' params'. KubeServerVersion ext = Inr v' \<and>
              fst (Resolve ext (heap w1) nodeClass nodeClaim instanceType
                     (sp\<lparr>KubernetesVersion := v'\<rparr>)) = Inr params' \<and>
              UserData_Script params' = Inr (T_UserData t) \<and> T_ImageID t = ImageID params')"
    if "out = Return (Some t, err)" for t err
    using assms(1,2,4) that c1
    by (auto simp: GetTemplate_def createLaunchTemplate_def Let_def mergeTags_eq make_map_def
             split: sum.splits prod.splits option.splits)
  from 1 2 3 4 show ?thesis by blast
qed

theorem GetTemplate_short_circuits_witness:
  "fst (GetTemplate (example_externals\<lparr>Resolve := failing_resolver\<rparr>) [] example_provider
          example_world example_options example_nodeClass example_nodeClaim both_instanceType
          (MapAt 1))
     = Return (None, Some ''no image for arch'')
   \<and> calls (snd (GetTemplate (example_externals\<lparr>Resolve := failing_resolver\<rparr>) [] example_provider
          example_world example_options example_nodeClass example_nodeClaim both_instanceType
          (MapAt 1)))
     = [KubeServerVersion_call, Resolve_call]"
proof -
  let ?ext = "example_externals\<lparr>Resolve := failing_resolver\<rparr>"
  obtain labels w0 where
    a: "lo_Assign example_world [NodeClaim_Labels example_nodeClaim, MapAt 1] = (labels, w0)"
    by (cases "lo_Assign example_world [NodeClaim_Labels example_nodeClaim, MapAt 1]")
  have s: "Spec_VnetSubnetID example_nodeClass = Some example_subnet_id"
    by (simp add: example_nodeClass_def)
  have l: "3 \<le> length (strings_Split example_subnet_id (CHR ''/''))"
    by (simp add: example_split)
  from getVnetLabelValues_ok [OF s refl l, of ?ext w0]
  obtain vl w1' where g: "getVnetLabelValues ?ext w0 example_nodeClass = (Return vl, w1')"
    by blast
  from getStaticParameters_ReturnI [OF g, of example_provider example_options both_instanceType labels]
  obtain sp w1 where
    b: "getStaticParameters ?ext example_provider w0 example_options both_instanceType
          example_nodeClass labels = (Return sp, w1)"
    by blast
  have k: "KubeServerVersion ?ext = Inr ''1.29.0''"
    by (simp add: example_externals_def)
  have r: "Resolve ?ext (heap w1) example_nodeClass example_nodeClaim both_instanceType
             (sp\<lparr>KubernetesVersion := ''1.29.0''\<rparr>) = (Inl ''no image for arch'', heap w1)"
    by (simp add: failing_resolver_def)
  have c: "calls example_world = []"
    by (simp add: example_world_def)
  obtain out w' where
    t: "GetTemplate ?ext [] example_provider example_world example_options example_nodeClass
          example_nodeClaim both_instanceType (MapAt 1) = (out, w')"
    by (cases "GetTemplate ?ext [] example_provider example_world example_options example_nodeClass
          example_nodeClaim both_instanceType (MapAt 1)")
  from GetTemplate_short_circuits [OF a b r t, of "''no image for arch''"] k c
  have "out = Return (None, Some ''no image for arch'')
        \<and> calls w' = [KubeServerVersion_call, Resolve_call]"
    by simp
  with t show ?thesis by simp
qed

text \<open>
  C4. Whenever the static parameter builder returns, the architecture it detected is one
  value, decided by the compatibility test of the instance type's requirements against
  the single requirement "architecture In arm64": \<^verbatim>\<open>arm64\<close> when the test reports no error,
  \<^verbatim>\<open>amd64\<close> otherwise.
\<close>

theorem getStaticParameters_arch:
  assumes "getStaticParameters ext p w ctx instanceType nodeClass labels = (Return sp, w')"
  shows "Arch sp =
     (if Compatible ext (Requirements instanceType)
           (NewRequirements [NewRequirement LabelArchStable NodeSelectorOpIn [ArchitectureArm64]])
         = None
      then ''arm64'' else ''amd64'')"
  using getStaticParameters_ReturnD [OF assms]
  by (auto simp: NewRequirements_def ArchitectureArm64_def ArchitectureAmd64_def)

theorem getStaticParameters_arch_witness:
  "(\<exists>sp w'. getStaticParameters example_externals example_provider example_world example_options
               both_instanceType example_nodeClass (MapAt 0) = (Return sp, w')
            \<and> Arch sp = ''arm64'')
   \<and> (\<exists>sp w'. getStaticParameters example_externals example_provider example_world example_options
               amd64_instanceType example_nodeClass (MapAt 0) = (Return sp, w')
            \<and> Arch sp = ''amd64'')"
proof -
  have s: "Spec_VnetSubnetID example_nodeClass = Some example_subnet_id"
    by (simp add: example_nodeClass_def)
  have l: "3 \<le> length (strings_Split example_subnet_id (CHR ''/''))"
    by (simp add: example_split)
  from getVnetLabelValues_ok [OF s refl l, of example_externals example_world]
  obtain vl w1 where
    g: "getVnetLabelValues example_externals example_world example_nodeClass = (Return vl, w1)"
    by blast
  have both: "Compatible example_externals (Requirements both_instanceType)
        (NewRequirements [NewRequirement LabelArchStable NodeSelectorOpIn [ArchitectureArm64]]) = None"
    by (simp add: example_externals_def Compatible_intersects_def both_instanceType_def
          NewRequirements_def NewRequirement_def ArchitectureArm64_def ArchitectureAmd64_def)
  have amd: "Compatible example_externals (Requirements amd64_instanceType)
        (NewRequirements [NewRequirement LabelArchStable NodeSelectorOpIn [ArchitectureArm64]]) \<noteq> None"
    by (simp add: example_externals_def Compatible_intersects_def amd64_instanceType_def
          NewRequirements_def NewRequirement_def ArchitectureArm64_def ArchitectureAmd64_def)
  from getStaticParameters_ReturnI [OF g, of example_provider example_options both_instanceType "MapAt 0"]
  obtain sp1 w1' where
    b1: "getStaticParameters example_externals example_provider example_world example_options
           both_instanceType example_nodeClass (MapAt 0) = (Return sp1, w1')"
    by blast
  from getStaticParameters_ReturnI [OF g, of example_provider example_options amd64_instanceType "MapAt 0"]
  obtain sp2 w2' where
    b2: "getStaticParameters example_externals example_provider example_world example_options
           amd64_instanceType example_nodeClass (MapAt 0) = (Return sp2, w2')"
    by blast
  have "Arch sp1 = ''arm64''"
    using getStaticParameters_arch [OF b1] both by simp
  moreover have "Arch sp2 = ''amd64''"
    using getStaticParameters_arch [OF b2] amd by simp
  ultimately show ?thesis using b1 b2 by blast
qed

lemma mergeTags_content:
  assumes "mergeTags order w tags = (r, w')"
  shows "deref (heap w') r = map_entries order (assign_maps (map (deref (heap w)) tags)) arm_entry"
  using assms by (auto simp: mergeTags_eq deref_def nth_append)

lemma scenario_union:
  "assign_maps (map (deref (heap scenario_world)) [MapAt 0, MapAt 1]) = [''c'' \<mapsto> ''2'', ''a/b'' \<mapsto> ''3'']"
  by (rule ext) (simp add: assign_maps_def scenario_world_def deref_def map_add_def)

lemma scenario_merge:
  assumes "range_order order [''c'' \<mapsto> ''2'', ''a/b'' \<mapsto> ''3'']"
  shows "map_entries order [''c'' \<mapsto> ''2'', ''a/b'' \<mapsto> ''3''] arm_entry = [''a_b'' \<mapsto> ''3'', ''c'' \<mapsto> ''2'']"
proof (rule ext)
  fix k'
  let ?U = "[''c'' \<mapsto> ''2'', ''a/b'' \<mapsto> ''3''] :: gomap"
  have so: "set order = {''c'', ''a/b''}" using assms by (auto simp: range_order_def)
  have ab: "map_entries order ?U arm_entry (strings_ReplaceAll ''a/b'' (CHR ''/'') (CHR ''_'')) = Some ''3''"
    by (rule map_entries_unclashed) (auto simp: so strings_ReplaceAll_def)
  have c: "map_entries order ?U arm_entry (strings_ReplaceAll ''c'' (CHR ''/'') (CHR ''_'')) = Some ''2''"
    by (rule map_entries_unclashed) (auto simp: so strings_ReplaceAll_def)
  have d: "dom (map_entries order ?U arm_entry) = {''a_b'', ''c''}"
    by (auto simp: dom_map_entries so strings_ReplaceAll_def)
  show "map_entries order ?U arm_entry k' = [''a_b'' \<mapsto> ''3'', ''c'' \<mapsto> ''2''] k'"
  proof (cases "k' = ''a_b'' \<or> k' = ''c''")
    case True
    then show ?thesis using ab c by (auto simp: strings_ReplaceAll_def)
  next
    case False
    then have "k' \<notin> dom (map_entries order ?U arm_entry)" using d by simp
    then have "map_entries order ?U arm_entry k' = None" by blast
    with False show ?thesis by simp
  qed
qed

text \<open>
  C6. Whatever the sources and whatever the order of the map iteration, no key of the
  merged tags contains \<^verbatim>\<open>/\<close>; for a possible order the keys are exactly the keys of the
  union with each \<^verbatim>\<open>/\<close> replaced by \<^verbatim>\<open>_\<close>. Merging \<^verbatim>\<open>{"a/b": "1"}\<close> with
  \<^verbatim>\<open>{"c": "2", "a/b": "3"}\<close> yields exactly \<^verbatim>\<open>{"a_b": "3", "c": "2"}\<close>, in every possible order.
\<close>

theorem mergeTags_keys_sanitized:
  assumes "mergeTags order w tags = (r, w')"
  shows "(\<forall>k \<in> dom (deref (heap w') r). CHR ''/'' \<notin> set k)
       \<and> (range_order order (assign_maps (map (deref (heap w)) tags)) \<longrightarrow>
            dom (deref (heap w') r) =
              (\<lambda>k. strings_ReplaceAll k (CHR ''/'') (CHR ''_''))
                ` dom (assign_maps (map (deref (heap w)) tags)))
       \<and> (\<forall>order'. range_order order'
                      (assign_maps (map (deref (heap scenario_world)) [MapAt 0, MapAt 1])) \<longrightarrow>
             deref (heap (snd (mergeTags order' scenario_world [MapAt 0, MapAt 1])))
                   (fst (mergeTags order' scenario_world [MapAt 0, MapAt 1]))
               = [''a_b'' \<mapsto> ''3'', ''c'' \<mapsto> ''2''])"
proof -
  let ?U = "assign_maps (map (deref (heap w)) tags)"
  have d: "dom (deref (heap w') r) =
             (\<lambda>k. strings_ReplaceAll k (CHR ''/'') (CHR ''_'')) ` (set order \<inter> dom ?U)"
    by (simp add: mergeTags_content [OF assms] dom_map_entries)
  have 1: "\<forall>k \<in> dom (deref (heap w') r). CHR ''/'' \<notin> set k"
    unfolding d using slash_free by blast
  have 2: "dom (deref (heap w') r) = (\<lambda>k. strings_ReplaceAll k (CHR ''/'') (CHR ''_'')) ` dom ?U"
    if "range_order order ?U"
    using that unfolding d by (simp add: range_order_def)
  have 3: "deref (heap (snd (mergeTags order' scenario_world [MapAt 0, MapAt 1])))
                 (fst (mergeTags order' scenario_world [MapAt 0, MapAt 1]))
             = [''a_b'' \<mapsto> ''3'', ''c'' \<mapsto> ''2'']"
    if "range_order order' (assign_maps (map (deref (heap scenario_world)) [MapAt 0, MapAt 1]))"
    for order'
    unfolding mergeTags_content [OF prod.collapse [symmetric]] scenario_union
    by (rule scenario_merge [OF that [unfolded scenario_union]])
  from 1 2 3 show ?thesis by blast
qed

text \<open>
  C5 (as the code has it). \<^verbatim>\<open>mergeTags\<close> has no error result and cannot panic. Its result is
  the union of the sources with the keys sanitized; no sources give the empty map; the
  union does not depend on how the sources are grouped; in the union a key has the value
  of the latest source that contains it. In the merged tags the key, sanitized, holds that
  value provided no other key of the union is sanitized to the same key.
\<close>

theorem mergeTags_later_source_wins:
  assumes "mergeTags order w tags = (r, w')"
    and "range_order order (assign_maps (map (deref (heap w)) tags))"
  shows "deref (heap w') r = map_entries order (assign_maps (map (deref (heap w)) tags)) arm_entry
       \<and> (tags = [] \<longrightarrow> deref (heap w') r = Map.empty)
       \<and> (\<forall>xs ys zs. map (deref (heap w)) tags = xs @ ys @ zs \<longrightarrow>
             assign_maps (map (deref (heap w)) tags)
               = assign_maps [assign_maps (xs @ ys), assign_maps zs]
           \<and> assign_maps (map (deref (heap w)) tags)
               = assign_maps [assign_maps xs, assign_maps (ys @ zs)])
       \<and> (\<forall>k. assign_maps (map (deref (heap w)) tags) k
               = latest_source_value (map (deref (heap w)) tags) k)
       \<and> (\<forall>k v. latest_source_value (map (deref (heap w)) tags) k = Some v
                \<and> (\<forall>k'. k' \<in> dom (assign_maps (map (deref (heap w)) tags))
                         \<and> strings_ReplaceAll k' (CHR ''/'') (CHR ''_'')
                             = strings_ReplaceAll k (CHR ''/'') (CHR ''_'')
                       \<longrightarrow> k' = k)
             \<longrightarrow> deref (heap w') r (strings_ReplaceAll k (CHR ''/'') (CHR ''_'')) = Some v)"
proof -
  let ?srcs = "map (deref (heap w)) tags"
  let ?U = "assign_maps ?srcs"
  have c: "deref (heap w') r = map_entries order ?U arm_entry"
    by (rule mergeTags_content [OF assms(1)])
  have e: "deref (heap w') r = Map.empty" if "tags = []"
  proof -
    from that assms(2) have "order = []"
      by (simp add: range_order_def assign_maps_Nil)
    with c show ?thesis by (simp add: map_entries_Nil)
  qed
  have a: "?U = assign_maps [assign_maps (xs @ ys), assign_maps zs]
         \<and> ?U = assign_maps [assign_maps xs, assign_maps (ys @ zs)]"
    if "?srcs = xs @ ys @ zs" for xs ys zs
  proof -
    have two: "assign_maps [m, n] = m ++ n" for m n :: gomap
      by (simp add: assign_maps_def)
    from that have "?U = assign_maps xs ++ assign_maps ys ++ assign_maps zs"
      by (simp add: assign_maps_append)
    then show ?thesis
      by (simp add: two assign_maps_append)
  qed
  have l: "deref (heap w') r (strings_ReplaceAll k (CHR ''/'') (CHR ''_'')) = Some v"
    if lv: "latest_source_value ?srcs k = Some v"
      and inj: "\<forall>k'. k' \<in> dom ?U
                  \<and> strings_ReplaceAll k' (CHR ''/'') (CHR ''_'')
                      = strings_ReplaceAll k (CHR ''/'') (CHR ''_'')
                  \<longrightarrow> k' = k"
    for k v
  proof -
    from lv have u: "?U k = Some v" by (simp add: assign_maps_latest)
    with assms(2) have "k \<in> set order" by (auto simp: range_order_def)
    then have "map_entries order ?U arm_entry (strings_ReplaceAll k (CHR ''/'') (CHR ''_'')) = Some v"
      using u inj by (intro map_entries_unclashed) auto
    with c show ?thesis by simp
  qed
  from c e a l assign_maps_latest show ?thesis by blast
qed

lemma clash_sources:
  "map (deref (heap clash_world)) [MapAt 0, MapAt 1] =
     [[''a/b'' \<mapsto> ''1'', ''a_b'' \<mapsto> ''x''], [''a/b'' \<mapsto> ''3'', ''a_b'' \<mapsto> ''2'']]"
  by (simp add: clash_world_def deref_def)

lemma clash_union:
  "assign_maps (map (deref (heap clash_world)) [MapAt 0, MapAt 1]) = [''a/b'' \<mapsto> ''3'', ''a_b'' \<mapsto> ''2'']"
  unfolding clash_sources by (rule ext) (simp add: assign_maps_def map_add_def)

text \<open>
  C5, the claim as stated fails. Both sources hold the keys \<^verbatim>\<open>a/b\<close> and \<^verbatim>\<open>a_b\<close>, which are
  sanitized to the same key. The latest source gives \<^verbatim>\<open>a/b\<close> the value 3 and \<^verbatim>\<open>a_b\<close> the
  value 2, and the merged tags hold one value under \<^verbatim>\<open>a_b\<close>: in one order of iteration
  the key \<^verbatim>\<open>a/b\<close> loses its latest value, in the other order the key \<^verbatim>\<open>a_b\<close> does.
\<close>

theorem mergeTags_later_source_loses:
  "latest_source_value (map (deref (heap clash_world)) [MapAt 0, MapAt 1]) ''a/b'' = Some ''3''
   \<and> latest_source_value (map (deref (heap clash_world)) [MapAt 0, MapAt 1]) ''a_b'' = Some ''2''
   \<and> range_order [''a/b'', ''a_b''] (assign_maps (map (deref (heap clash_world)) [MapAt 0, MapAt 1]))
   \<and> deref (heap (snd (mergeTags [''a/b'', ''a_b''] clash_world [MapAt 0, MapAt 1])))
        (fst (mergeTags [''a/b'', ''a_b''] clash_world [MapAt 0, MapAt 1]))
        (strings_ReplaceAll ''a/b'' (CHR ''/'') (CHR ''_'')) = Some ''2''
   \<and> range_order [''a_b'', ''a/b''] (assign_maps (map (deref (heap clash_world)) [MapAt 0, MapAt 1]))
   \<and> deref (heap (snd (mergeTags [''a_b'', ''a/b''] clash_world [MapAt 0, MapAt 1])))
        (fst (mergeTags [''a_b'', ''a/b''] clash_world [MapAt 0, MapAt 1]))
        (strings_ReplaceAll ''a_b'' (CHR ''/'') (CHR ''_'')) = Some ''3''"
proof -
  have 1: "latest_source_value (map (deref (heap clash_world)) [MapAt 0, MapAt 1]) ''a/b'' = Some ''3''"
    unfolding clash_sources by simp
  have 2: "latest_source_value (map (deref (heap clash_world)) [MapAt 0, MapAt 1]) ''a_b'' = Some ''2''"
    unfolding clash_sources by simp
  have 3: "range_order [''a/b'', ''a_b''] (assign_maps (map (deref (heap clash_world)) [MapAt 0, MapAt 1]))"
    unfolding clash_union by (auto simp: range_order_def)
  have 5: "range_order [''a_b'', ''a/b''] (assign_maps (map (deref (heap clash_world)) [MapAt 0, MapAt 1]))"
    unfolding clash_union by (auto simp: range_order_def)
  have 4: "deref (heap (snd (mergeTags [''a/b'', ''a_b''] clash_world [MapAt 0, MapAt 1])))
        (fst (mergeTags [''a/b'', ''a_b''] clash_world [MapAt 0, MapAt 1]))
        (strings_ReplaceAll ''a/b'' (CHR ''/'') (CHR ''_'')) = Some ''2''"
    unfolding mergeTags_content [OF prod.collapse [symmetric]] clash_union
    by (simp add: map_entries_def arm_entry_def strings_ReplaceAll_def to_StringPtr_def)
  have 6: "deref (heap (snd (mergeTags [''a_b'', ''a/b''] clash_world [MapAt 0, MapAt 1])))
        (fst (mergeTags [''a_b'', ''a/b''] clash_world [MapAt 0, MapAt 1]))
        (strings_ReplaceAll ''a_b'' (CHR ''/'') (CHR ''_'')) = Some ''3''"
    unfolding mergeTags_content [OF prod.collapse [symmetric]] clash_union
    by (simp add: map_entries_def arm_entry_def strings_ReplaceAll_def to_StringPtr_def)
  from 1 2 3 4 5 6 show ?thesis by blast
qed

lemma scenario_range_order:
  "range_order [''c'', ''a/b''] (assign_maps (map (deref (heap scenario_world)) [MapAt 0, MapAt 1]))"
  unfolding scenario_union by (auto simp: range_order_def)

theorem mergeTags_later_source_wins_witness:
  "range_order [''c'', ''a/b''] (assign_maps (map (deref (heap scenario_world)) [MapAt 0, MapAt 1]))
   \<and> latest_source_value (map (deref (heap scenario_world)) [MapAt 0, MapAt 1]) ''a/b'' = Some ''3''
   \<and> deref (heap (snd (mergeTags [''c'', ''a/b''] scenario_world [MapAt 0, MapAt 1])))
        (fst (mergeTags [''c'', ''a/b''] scenario_world [MapAt 0, MapAt 1])) ''a_b'' = Some ''3''"
proof -
  let ?srcs = "map (deref (heap scenario_world)) [MapAt 0, MapAt 1]"
  have lv: "latest_source_value ?srcs ''a/b'' = Some ''3''"
    by (simp add: scenario_world_def deref_def)
  have inj: "\<forall>k'. k' \<in> dom (assign_maps ?srcs)
               \<and> strings_ReplaceAll k' (CHR ''/'') (CHR ''_'')
                   = strings_ReplaceAll ''a/b'' (CHR ''/'') (CHR ''_'')
             \<longrightarrow> k' = ''a/b''"
    unfolding scenario_union by (auto simp: strings_ReplaceAll_def)
  from mergeTags_later_source_wins [OF prod.collapse [symmetric] scenario_range_order] lv inj
  have "deref (heap (snd (mergeTags [''c'', ''a/b''] scenario_world [MapAt 0, MapAt 1])))
          (fst (mergeTags [''c'', ''a/b''] scenario_world [MapAt 0, MapAt 1]))
          (strings_ReplaceAll ''a/b'' (CHR ''/'') (CHR ''_'')) = Some ''3''"
    by blast
  then show ?thesis
    using scenario_range_order lv by (simp add: strings_ReplaceAll_def)
qed

theorem mergeTags_keys_sanitized_witness:
  "range_order [''c'', ''a/b''] (assign_maps (map (deref (heap scenario_world)) [MapAt 0, MapAt 1]))
   \<and> dom (deref (heap (snd (mergeTags [''c'', ''a/b''] scenario_world [MapAt 0, MapAt 1])))
        (fst (mergeTags [''c'', ''a/b''] scenario_world [MapAt 0, MapAt 1]))) = {''a_b'', ''c''}
   \<and> deref (heap (snd (mergeTags [''c'', ''a/b''] scenario_world [MapAt 0, MapAt 1])))
        (fst (mergeTags [''c'', ''a/b''] scenario_world [MapAt 0, MapAt 1]))
      = [''a_b'' \<mapsto> ''3'', ''c'' \<mapsto> ''2'']"
proof -
  from mergeTags_keys_sanitized [OF prod.collapse [symmetric], of "[''c'', ''a/b'']" scenario_world
         "[MapAt 0, MapAt 1]"] scenario_range_order
  have "dom (deref (heap (snd (mergeTags [''c'', ''a/b''] scenario_world [MapAt 0, MapAt 1])))
          (fst (mergeTags [''c'', ''a/b''] scenario_world [MapAt 0, MapAt 1])))
        = (\<lambda>k. strings_ReplaceAll k (CHR ''/'') (CHR ''_''))
            ` dom (assign_maps (map (deref (heap scenario_world)) [MapAt 0, MapAt 1]))"
    by blast
  then have d: "dom (deref (heap (snd (mergeTags [''c'', ''a/b''] scenario_world [MapAt 0, MapAt 1])))
          (fst (mergeTags [''c'', ''a/b''] scenario_world [MapAt 0, MapAt 1]))) = {''a_b'', ''c''}"
    unfolding scenario_union by (auto simp: strings_ReplaceAll_def)
  have e: "deref (heap (snd (mergeTags [''c'', ''a/b''] scenario_world [MapAt 0, MapAt 1])))
        (fst (mergeTags [''c'', ''a/b''] scenario_world [MapAt 0, MapAt 1]))
      = [''a_b'' \<mapsto> ''3'', ''c'' \<mapsto> ''2'']"
    unfolding mergeTags_content [OF prod.collapse [symmetric]] scenario_union
    by (rule scenario_merge [OF scenario_range_order [unfolded scenario_union]])
  from d e scenario_range_order show ?thesis by blast
qed

lemma deref_valid_append:
  "valid_ref h r \<Longrightarrow> deref (h @ xs) r = deref h r"
  by (cases r) (simp_all add: valid_ref_def deref_def nth_append)

text \<open>
  The second union, in \<^verbatim>\<open>getStaticParameters\<close>: the labels it is given, overridden by the
  Vnet labels.
\<close>

lemma getStaticParameters_labels:
  assumes "lo_Assign w [NodeClaim_Labels nodeClaim, additionalLabels] = (labels, w0)"
    and "getVnetLabelValues ext w0 nodeClass = (Return vl, w1)"
    and "valid_ref (heap w) (NodeClaim_Labels nodeClaim)"
    and "valid_ref (heap w) additionalLabels"
  shows "\<exists>sp w2. getStaticParameters ext p w0 ctx instanceType nodeClass labels = (Return sp, w2)
          \<and> deref (heap w2) (Labels sp) =
               deref (heap w) (NodeClaim_Labels nodeClaim) ++ deref (heap w) additionalLabels
                 ++ deref (heap w1) vl
          \<and> dom (deref (heap w2) (Labels sp)) =
               dom (deref (heap w) (NodeClaim_Labels nodeClaim)) \<union> dom (deref (heap w) additionalLabels)
                 \<union> dom (deref (heap w1) vl)
          \<and> (\<forall>k v. deref (heap w1) vl k = Some v \<longrightarrow> deref (heap w2) (Labels sp) k = Some v)
          \<and> (\<forall>k v. deref (heap w1) vl k = None \<and> deref (heap w) additionalLabels k = Some v
                 \<longrightarrow> deref (heap w2) (Labels sp) k = Some v)
          \<and> (\<forall>k. deref (heap w1) vl k = None \<and> deref (heap w) additionalLabels k = None
                 \<longrightarrow> deref (heap w2) (Labels sp) k = deref (heap w) (NodeClaim_Labels nodeClaim) k)"
proof -
  let ?nc = "deref (heap w) (NodeClaim_Labels nodeClaim)"
  let ?ad = "deref (heap w) additionalLabels"
  let ?vn = "deref (heap w1) vl"
  have two: "assign_maps [m, n] = m ++ n" for m n :: gomap
    by (simp add: assign_maps_def)
  from assms(1) have l: "labels = MapAt (length (heap w))"
    and w0: "heap w0 = heap w @ [?nc ++ ?ad]"
    by (auto simp: lo_Assign_eq two)
  from getVnetLabelValues_cases [OF assms(2)] obtain V where w1: "heap w1 = heap w0 @ [V]"
    by auto
  have dl: "deref (heap w1) labels = ?nc ++ ?ad"
    by (simp add: l w1 w0 deref_def nth_append)
  from getStaticParameters_ReturnI [OF assms(2), of p ctx instanceType labels]
  obtain sp where
    b: "getStaticParameters ext p w0 ctx instanceType nodeClass labels =
          (Return sp, w1\<lparr>heap := heap w1 @ [assign_maps [deref (heap w1) labels, ?vn]]\<rparr>)"
    and ls: "Labels sp = MapAt (length (heap w1))"
    by blast
  let ?w2 = "w1\<lparr>heap := heap w1 @ [assign_maps [deref (heap w1) labels, ?vn]]\<rparr>"
  have c: "deref (heap ?w2) (Labels sp) = ?nc ++ ?ad ++ ?vn"
    by (simp add: ls deref_fresh two dl)
  have d: "dom (deref (heap ?w2) (Labels sp)) = dom ?nc \<union> dom ?ad \<union> dom ?vn"
    unfolding c by auto
  have p1: "deref (heap ?w2) (Labels sp) k = Some v" if "?vn k = Some v" for k v
    unfolding c using that by (simp add: map_add_def)
  have p2: "deref (heap ?w2) (Labels sp) k = Some v" if "?vn k = None" "?ad k = Some v" for k v
    unfolding c using that by (simp add: map_add_def)
  have p3: "deref (heap ?w2) (Labels sp) k = ?nc k" if "?vn k = None" "?ad k = None" for k
    unfolding c using that by (simp add: map_add_def)
  from b c d p1 p2 p3 show ?thesis by blast
qed

lemma example_vnet:
  assumes "Spec_VnetSubnetID nodeClass = Some example_subnet_id"
  shows "getVnetLabelValues ext w nodeClass =
     (Return (MapAt (length (heap w))),
      w\<lparr>heap := heap w @
         [[vnetDataPlaneLabel \<mapsto> ''cilium'',
           vnetNetworkNameLabel \<mapsto> ''vnet1'',
           vnetSubnetNameLabel \<mapsto> ''subnet1'',
           vnetSubscriptionIDLabel \<mapsto> ''sub1'',
           vnetGUIDLabel \<mapsto> Getenv ext ''AZURE_VNET_GUID'',
           vnetPodNetworkTypeLabel \<mapsto> ''overlay'']]\<rparr>)"
proof -
  have l: "3 \<le> length (strings_Split example_subnet_id (CHR ''/''))"
    by (simp add: example_split)
  from getVnetLabelValues_ok [OF assms refl l, of ext w]
  show ?thesis
    by (simp add: example_split ciliumNetworkPlugin_def overlayNetworkType_def)
qed

lemma getVnetLabelValues_six_labels:
  assumes "Spec_VnetSubnetID nodeClass = Some s"
    and "parts = strings_Split s (CHR ''/'')"
    and "3 \<le> length parts"
    and "getVnetLabelValues ext w nodeClass = (out, w')"
  shows "\<exists>r. out = Return r
      \<and> dom (deref (heap w') r) =
          {vnetDataPlaneLabel, vnetNetworkNameLabel, vnetSubnetNameLabel, vnetSubscriptionIDLabel,
           vnetGUIDLabel, vnetPodNetworkTypeLabel}
      \<and> card (dom (deref (heap w') r)) = 6
      \<and> deref (heap w') r vnetSubscriptionIDLabel = Some (parts ! 2)
      \<and> deref (heap w') r vnetNetworkNameLabel = Some (parts ! (length parts - 3))
      \<and> deref (heap w') r vnetSubnetNameLabel = Some (last parts)
      \<and> deref (heap w') r vnetDataPlaneLabel = Some ''cilium''
      \<and> deref (heap w') r vnetPodNetworkTypeLabel = Some ''overlay''
      \<and> deref (heap w') r vnetGUIDLabel = Some (Getenv ext ''AZURE_VNET_GUID'')"
proof -
  have ne: "parts \<noteq> []" using assms(3) by auto
  have la: "last parts = parts ! (length parts - 1)" by (rule last_conv_nth [OF ne])
  from getVnetLabelValues_ok [OF assms(1-3), of ext w] assms(4)
  have o: "out = Return (MapAt (length (heap w)))"
    and h: "deref (heap w') (MapAt (length (heap w))) =
         [vnetDataPlaneLabel \<mapsto> ciliumNetworkPlugin,
           vnetNetworkNameLabel \<mapsto> parts ! (length parts - 3),
           vnetSubnetNameLabel \<mapsto> parts ! (length parts - 1),
           vnetSubscriptionIDLabel \<mapsto> parts ! 2,
           vnetGUIDLabel \<mapsto> Getenv ext ''AZURE_VNET_GUID'',
           vnetPodNetworkTypeLabel \<mapsto> overlayNetworkType]"
    by (auto simp: deref_def)
  have keys: "dom (deref (heap w') (MapAt (length (heap w)))) =
          {vnetDataPlaneLabel, vnetNetworkNameLabel, vnetSubnetNameLabel, vnetSubscriptionIDLabel,
           vnetGUIDLabel, vnetPodNetworkTypeLabel}"
    unfolding h by auto
  have six: "card {vnetDataPlaneLabel, vnetNetworkNameLabel, vnetSubnetNameLabel,
                   vnetSubscriptionIDLabel, vnetGUIDLabel, vnetPodNetworkTypeLabel} = 6"
    by (simp add: vnetDataPlaneLabel_def vnetNetworkNameLabel_def vnetSubnetNameLabel_def
          vnetSubscriptionIDLabel_def vnetGUIDLabel_def vnetPodNetworkTypeLabel_def)
  have vals: "deref (heap w') (MapAt (length (heap w))) vnetSubscriptionIDLabel = Some (parts ! 2)"
      "deref (heap w') (MapAt (length (heap w))) vnetNetworkNameLabel = Some (parts ! (length parts - 3))"
      "deref (heap w') (MapAt (length (heap w))) vnetSubnetNameLabel = Some (last parts)"
      "deref (heap w') (MapAt (length (heap w))) vnetDataPlaneLabel = Some ''cilium''"
      "deref (heap w') (MapAt (length (heap w))) vnetPodNetworkTypeLabel = Some ''overlay''"
      "deref (heap w') (MapAt (length (heap w))) vnetGUIDLabel = Some (Getenv ext ''AZURE_VNET_GUID'')"
    unfolding h la
    by (simp_all add: vnetDataPlaneLabel_def vnetNetworkNameLabel_def vnetSubnetNameLabel_def
          vnetSubscriptionIDLabel_def vnetGUIDLabel_def vnetPodNetworkTypeLabel_def
          ciliumNetworkPlugin_def overlayNetworkType_def)
  from o keys six vals show ?thesis by simp
qed

lemma createLaunchTemplate_shape:
  assumes "createLaunchTemplate order w opts = (res, w')"
  shows "prefix (heap w) (heap w')
       \<and> (\<forall>t err. res = (Some t, err) \<longrightarrow>
             err = None \<and> T_Tags t = MapAt (length (heap w) + 2)
             \<and> length (heap w') = length (heap w) + 3)"
  using assms
  by (auto simp: createLaunchTemplate_def Let_def make_map_def mergeTags_eq prefix_def
           split: sum.splits)

lemma example_tags_merge:
  assumes "range_order order [''a/b'' \<mapsto> ''1'', ''karpenter.azure.com/cluster'' \<mapsto> ''c1'']"
  shows "map_entries order [''a/b'' \<mapsto> ''1'', ''karpenter.azure.com/cluster'' \<mapsto> ''c1''] arm_entry
           = [''a_b'' \<mapsto> ''1'', ''karpenter.azure.com_cluster'' \<mapsto> ''c1'']"
proof (rule ext)
  fix k'
  let ?U = "[''a/b'' \<mapsto> ''1'', ''karpenter.azure.com/cluster'' \<mapsto> ''c1''] :: gomap"
  have so: "set order = {''a/b'', ''karpenter.azure.com/cluster''}"
    using assms by (auto simp: range_order_def)
  have ab: "map_entries order ?U arm_entry (strings_ReplaceAll ''a/b'' (CHR ''/'') (CHR ''_'')) = Some ''1''"
    by (rule map_entries_unclashed) (auto simp: so strings_ReplaceAll_def)
  have c: "map_entries order ?U arm_entry
             (strings_ReplaceAll ''karpenter.azure.com/cluster'' (CHR ''/'') (CHR ''_'')) = Some ''c1''"
    by (rule map_entries_unclashed) (auto simp: so strings_ReplaceAll_def)
  have d: "dom (map_entries order ?U arm_entry) = {''a_b'', ''karpenter.azure.com_cluster''}"
    by (auto simp: dom_map_entries so strings_ReplaceAll_def)
  show "map_entries order ?U arm_entry k' = [''a_b'' \<mapsto> ''1'', ''karpenter.azure.com_cluster'' \<mapsto> ''c1''] k'"
  proof (cases "k' = ''a_b'' \<or> k' = ''karpenter.azure.com_cluster''")
    case True
    then show ?thesis using ab c by (auto simp: strings_ReplaceAll_def)
  next
    case False
    then have "k' \<notin> dom (map_entries order ?U arm_entry)" using d by simp
    then have "map_entries order ?U arm_entry k' = None" by blast
    with False show ?thesis by simp
  qed
qed

lemma example_tags_order:
  "range_order [''a/b'', ''karpenter.azure.com/cluster'']
     [''a/b'' \<mapsto> ''1'', ''karpenter.azure.com/cluster'' \<mapsto> ''c1'']"
  by (auto simp: range_order_def)

lemma example_GetTemplate:
  assumes s: "Spec_VnetSubnetID nodeClass = Some example_subnet_id"
    and v: "valid_ref (heap example_world) (Spec_Tags nodeClass)"
  shows "\<exists>labels w0 sp w1 params.
      lo_Assign example_world [NodeClaim_Labels example_nodeClaim, MapAt 1] = (labels, w0)
    \<and> getStaticParameters example_externals example_provider w0 example_options instanceType
          nodeClass labels = (Return sp, w1)
    \<and> KubeServerVersion example_externals = Inr ''1.29.0''
    \<and> Resolve example_externals (heap w1) nodeClass example_nodeClaim instanceType
          (sp\<lparr>KubernetesVersion := ''1.29.0''\<rparr>) = (Inr params, heap w1)
    \<and> UserData_Script params = Inr ''#!/bin/bash''
    \<and> ImageID params = ''image1''
    \<and> ClusterName params = ''c1''
    \<and> Tags params = Spec_Tags nodeClass
    \<and> valid_ref (heap w1) (Tags params)
    \<and> deref (heap w1) (Tags params) = deref (heap example_world) (Spec_Tags nodeClass)
    \<and> length (heap w1) = 7"
proof -
  obtain labels w0 where
    a: "lo_Assign example_world [NodeClaim_Labels example_nodeClaim, MapAt 1] = (labels, w0)"
    by (cases "lo_Assign example_world [NodeClaim_Labels example_nodeClaim, MapAt 1]")
  then obtain m0 where h0: "heap w0 = heap example_world @ [m0]"
    by (auto simp: lo_Assign_eq)
  note g = example_vnet [OF s, of example_externals w0]
  from getStaticParameters_ReturnI [OF g, of example_provider example_options instanceType labels]
  obtain sp m1 m2 where
    b: "getStaticParameters example_externals example_provider w0 example_options instanceType
          nodeClass labels = (Return sp, w0\<lparr>heap := heap w0 @ [m1, m2]\<rparr>)"
    and t: "Tags sp = Spec_Tags nodeClass"
    and c: "ClusterName sp = ctx_ClusterName example_options"
    by auto
  let ?w1 = "w0\<lparr>heap := heap w0 @ [m1, m2]\<rparr>"
  let ?params = "StaticParameters.extend (sp\<lparr>KubernetesVersion := ''1.29.0''\<rparr>)
                   (Parameters.fields (Inr ''#!/bin/bash'') ''image1'') :: string Parameters"
  have h1: "heap ?w1 = heap example_world @ [m0, m1, m2]" by (simp add: h0)
  have k: "KubeServerVersion example_externals = Inr ''1.29.0''"
    by (simp add: example_externals_def)
  have r: "Resolve example_externals (heap ?w1) nodeClass example_nodeClaim instanceType
          (sp\<lparr>KubernetesVersion := ''1.29.0''\<rparr>) = (Inr ?params, heap ?w1)"
    by (simp add: example_externals_def example_resolver_def)
  have p: "UserData_Script ?params = Inr ''#!/bin/bash''" "ImageID ?params = ''image1''"
    "ClusterName ?params = ''c1''" "Tags ?params = Spec_Tags nodeClass"
    by (simp_all add: StaticParameters.extend_def Parameters.fields_def t c example_options_def)
  have vr: "valid_ref (heap ?w1) (Tags ?params)"
    unfolding p h1 using v by (cases "Spec_Tags nodeClass") (simp_all add: valid_ref_def)
  have d: "deref (heap ?w1) (Tags ?params) = deref (heap example_world) (Spec_Tags nodeClass)"
    unfolding p h1 by (rule deref_valid_append [OF v])
  have l: "length (heap ?w1) = 7"
    unfolding h1 by (simp add: example_world_def)
  from a b k r p vr d l show ?thesis by blast
qed

lemma sanitized_managed_key:
  "strings_ReplaceAll karpenterManagedTagKey (CHR ''/'') (CHR ''_'') = ''karpenter.azure.com_cluster''"
  by (simp add: strings_ReplaceAll_def karpenterManagedTagKey_def)

lemma strings_ReplaceAll_unchanged:
  assumes "strings_ReplaceAll k old new = s" and "new \<notin> set s"
  shows "k = s"
proof -
  have "\<forall>c \<in> set k. c \<noteq> old"
  proof
    fix c assume "c \<in> set k"
    show "c \<noteq> old"
    proof
      assume "c = old"
      with \<open>c \<in> set k\<close> have "new \<in> set (strings_ReplaceAll k old new)"
        by (force simp: strings_ReplaceAll_def)
      with assms show False by simp
    qed
  qed
  then have "strings_ReplaceAll k old new = k"
    by (simp add: strings_ReplaceAll_def map_idI)
  with assms(1) show ?thesis by simp
qed

lemma sanitized_to_managed_key:
  assumes "strings_ReplaceAll k (CHR ''/'') (CHR ''_'') = ''karpenter.azure.com_cluster''"
  shows "k = karpenterManagedTagKey \<or> k = ''karpenter.azure.com_cluster''"
proof -
  define f where "f = (\<lambda>c. if c = CHR ''/'' then CHR ''_'' else c)"
  define s1 where "s1 = ''karpenter.azure.com''"
  define s2 where "s2 = ''cluster''"
  have r: "strings_ReplaceAll x (CHR ''/'') (CHR ''_'') = map f x" for x
    by (simp add: strings_ReplaceAll_def f_def)
  have "''karpenter.azure.com_cluster'' = s1 @ CHR ''_'' # s2"
    by (simp add: s1_def s2_def)
  with assms have m: "map f k = s1 @ CHR ''_'' # s2"
    by (simp only: r)
  from iffD1 [OF map_eq_append_conv m] obtain k1 rest where
    k: "k = k1 @ rest" and 1: "s1 = map f k1" and m2: "CHR ''_'' # s2 = map f rest"
    by (elim exE conjE)
  from iffD1 [OF Cons_eq_map_conv m2] obtain c k2 where
    rest: "rest = c # k2" and c: "CHR ''_'' = f c" and 2: "s2 = map f k2"
    by (elim exE conjE)
  have k1: "k1 = s1"
  proof (rule strings_ReplaceAll_unchanged)
    show "strings_ReplaceAll k1 (CHR ''/'') (CHR ''_'') = s1"
      unfolding r by (rule 1 [symmetric])
    show "CHR ''_'' \<notin> set s1" by (simp add: s1_def)
  qed
  have k2: "k2 = s2"
  proof (rule strings_ReplaceAll_unchanged)
    show "strings_ReplaceAll k2 (CHR ''/'') (CHR ''_'') = s2"
      unfolding r by (rule 2 [symmetric])
    show "CHR ''_'' \<notin> set s2" by (simp add: s2_def)
  qed
  from c [symmetric] have "c = CHR ''/'' \<or> c = CHR ''_''"
    by (simp add: f_def split: if_splits)
  then show ?thesis
    unfolding k rest k1 k2 s1_def s2_def by (auto simp: karpenterManagedTagKey_def)
qed

text \<open>
  C9 (as the code has it). In a template returned by \<^verbatim>\<open>GetTemplate\<close>, for a possible order
  of the map iteration, the literal key \<^verbatim>\<open>karpenter.azure.com/cluster\<close> is absent from the
  tags, the sanitized key \<^verbatim>\<open>karpenter.azure.com_cluster\<close> is present, and it holds the
  cluster name provided the resolver's tags do not themselves hold the key
  \<^verbatim>\<open>karpenter.azure.com_cluster\<close>.
\<close>

theorem GetTemplate_marker_key:
  assumes "lo_Assign w [NodeClaim_Labels nodeClaim, additionalLabels] = (labels, w0)"
    and "getStaticParameters ext p w0 ctx instanceType nodeClass labels = (Return sp, w1)"
    and "KubeServerVersion ext = Inr v"
    and "Resolve ext (heap w1) nodeClass nodeClaim instanceType (sp\<lparr>KubernetesVersion := v\<rparr>)
           = (Inr params, h3)"
    and "UserData_Script params = Inr u"
    and "valid_ref h3 (Tags params)"
    and "range_order order ((deref h3 (Tags params))(karpenterManagedTagKey \<mapsto> ClusterName params))"
    and "GetTemplate ext order p w ctx nodeClass nodeClaim instanceType additionalLabels = (out, w')"
  shows "\<exists>t. out = Return (Some t, None)
       \<and> deref (heap w') (T_Tags t) karpenterManagedTagKey = None
       \<and> deref (heap w') (T_Tags t) ''karpenter.azure.com/cluster'' = None
       \<and> ''karpenter.azure.com_cluster'' \<in> dom (deref (heap w') (T_Tags t))
       \<and> (deref h3 (Tags params) ''karpenter.azure.com_cluster'' = None \<longrightarrow>
            deref (heap w') (T_Tags t) ''karpenter.azure.com_cluster'' = Some (ClusterName params))"
proof -
  let ?T = "deref h3 (Tags params)"
  let ?U = "?T(karpenterManagedTagKey \<mapsto> ClusterName params)"
  let ?t = "\<lparr>T_UserData = u, T_ImageID = ImageID params, T_Tags = MapAt (length h3 + 2)\<rparr>"
  have third: "deref (h @ [a, b, c]) (MapAt (length h + 2)) = c" for h and a b c :: gomap
    by (simp add: deref_def nth_append)
  from GetTemplate_ok [OF assms(1-6)] assms(8)
  have o: "out = Return (Some ?t, None)"
    and h: "heap w' = h3 @ [[karpenterManagedTagKey \<mapsto> ClusterName params], ?U,
                            map_entries order ?U arm_entry]"
    by auto
  have c: "deref (heap w') (T_Tags ?t) = map_entries order ?U arm_entry"
    unfolding h by (simp only: Template.simps third)
  have so: "set order \<inter> dom ?U = dom ?U"
    using assms(7) by (auto simp: range_order_def)
  have d: "dom (map_entries order ?U arm_entry) =
             (\<lambda>k. strings_ReplaceAll k (CHR ''/'') (CHR ''_'')) ` dom ?U"
    by (simp only: dom_map_entries so)
  have slash: "CHR ''/'' \<in> set karpenterManagedTagKey"
    by (simp add: karpenterManagedTagKey_def)
  have 1: "map_entries order ?U arm_entry karpenterManagedTagKey = None"
  proof (rule ccontr)
    assume "map_entries order ?U arm_entry karpenterManagedTagKey \<noteq> None"
    then have "karpenterManagedTagKey \<in> dom (map_entries order ?U arm_entry)" by blast
    then obtain k where "karpenterManagedTagKey = strings_ReplaceAll k (CHR ''/'') (CHR ''_'')"
      unfolding d by blast
    with slash slash_free [of k] show False by simp
  qed
  have 2: "''karpenter.azure.com_cluster'' \<in> dom (map_entries order ?U arm_entry)"
  proof -
    have "karpenterManagedTagKey \<in> dom ?U" by simp
    then have "strings_ReplaceAll karpenterManagedTagKey (CHR ''/'') (CHR ''_'')
                 \<in> dom (map_entries order ?U arm_entry)"
      unfolding d by (rule imageI)
    then show ?thesis by (simp only: sanitized_managed_key)
  qed
  have 3: "map_entries order ?U arm_entry ''karpenter.azure.com_cluster'' = Some (ClusterName params)"
    if none: "?T ''karpenter.azure.com_cluster'' = None"
  proof -
    have mem: "karpenterManagedTagKey \<in> set order"
      using assms(7) by (auto simp: range_order_def)
    have val: "?U karpenterManagedTagKey = Some (ClusterName params)" by simp
    have "map_entries order ?U arm_entry
            (strings_ReplaceAll karpenterManagedTagKey (CHR ''/'') (CHR ''_''))
          = Some (ClusterName params)"
    proof (rule map_entries_unclashed
             [where m = "?U" and k = karpenterManagedTagKey and ks = order
                and v = "ClusterName params"])
      show "karpenterManagedTagKey \<in> set order" by (rule mem)
      show "?U karpenterManagedTagKey = Some (ClusterName params)" by (rule val)
    next
      fix k'
      assume k': "k' \<in> dom ?U"
        and eq: "strings_ReplaceAll k' (CHR ''/'') (CHR ''_'')
                   = strings_ReplaceAll karpenterManagedTagKey (CHR ''/'') (CHR ''_'')"
      from eq sanitized_to_managed_key [of k']
      have "k' = karpenterManagedTagKey \<or> k' = ''karpenter.azure.com_cluster''"
        by (simp only: sanitized_managed_key)
      moreover have "k' \<noteq> ''karpenter.azure.com_cluster''" if "k' \<noteq> karpenterManagedTagKey"
        using k' none that by auto
      ultimately show "k' = karpenterManagedTagKey" by blast
    qed
    then show ?thesis by (simp only: sanitized_managed_key)
  qed
  have key: "karpenterManagedTagKey = ''karpenter.azure.com/cluster''"
    by (simp add: karpenterManagedTagKey_def)
  from o c 1 2 3 show ?thesis
    unfolding key [symmetric] by (intro exI [of _ ?t]) simp
qed

lemma example_GetTemplate_result:
  assumes s: "Spec_VnetSubnetID nodeClass = Some example_subnet_id"
    and v: "valid_ref (heap example_world) (Spec_Tags nodeClass)"
  shows "fst (GetTemplate example_externals order example_provider example_world example_options
            nodeClass example_nodeClaim instanceType (MapAt 1))
          = Return (Some \<lparr>T_UserData = ''#!/bin/bash'', T_ImageID = ''image1'', T_Tags = MapAt 9\<rparr>, None)
       \<and> deref (heap (snd (GetTemplate example_externals order example_provider example_world
            example_options nodeClass example_nodeClaim instanceType (MapAt 1)))) (MapAt 9)
          = map_entries order
              ((deref (heap example_world) (Spec_Tags nodeClass))(karpenterManagedTagKey \<mapsto> ''c1''))
              arm_entry"
proof -
  from example_GetTemplate [OF s v, of instanceType]
  obtain labels w0 sp w1 params where
    a: "lo_Assign example_world [NodeClaim_Labels example_nodeClaim, MapAt 1] = (labels, w0)"
    and b: "getStaticParameters example_externals example_provider w0 example_options instanceType
          nodeClass labels = (Return sp, w1)"
    and k: "KubeServerVersion example_externals = Inr ''1.29.0''"
    and r: "Resolve example_externals (heap w1) nodeClass example_nodeClaim instanceType
          (sp\<lparr>KubernetesVersion := ''1.29.0''\<rparr>) = (Inr params, heap w1)"
    and u: "UserData_Script params = Inr ''#!/bin/bash''"
    and i: "ImageID params = ''image1''"
    and c: "ClusterName params = ''c1''"
    and vr: "valid_ref (heap w1) (Tags params)"
    and d: "deref (heap w1) (Tags params) = deref (heap example_world) (Spec_Tags nodeClass)"
    and l: "length (heap w1) = 7"
    by blast
  have nine: "length (heap w1) + 2 = 9" by (simp add: l)
  have third: "deref (h @ [a, b, c]) (MapAt (length h + 2)) = c" for h and a b c :: gomap
    by (simp add: deref_def nth_append)
  note ok = GetTemplate_ok [OF a b k r u vr, of order, unfolded i c d]
  have 1: "fst (GetTemplate example_externals order example_provider example_world example_options
            nodeClass example_nodeClaim instanceType (MapAt 1))
          = Return (Some \<lparr>T_UserData = ''#!/bin/bash'', T_ImageID = ''image1'', T_Tags = MapAt 9\<rparr>, None)"
    unfolding ok nine by simp
  have 2: "deref (heap (snd (GetTemplate example_externals order example_provider example_world
            example_options nodeClass example_nodeClaim instanceType (MapAt 1)))) (MapAt 9)
          = map_entries order
              ((deref (heap example_world) (Spec_Tags nodeClass))(karpenterManagedTagKey \<mapsto> ''c1''))
              arm_entry"
    unfolding ok nine [symmetric] by (simp only: snd_conv world.simps third)
  from 1 2 show ?thesis by blast
qed

text \<open>
  C9, the claim as stated fails. The node class's tags hold the key
  \<^verbatim>\<open>karpenter.azure.com_cluster\<close> with the value \<^verbatim>\<open>other\<close>. The union then holds that key and
  the managed-by key, both sanitized to the same key; when the iteration visits the
  managed-by key first, the returned template's tags hold \<^verbatim>\<open>other\<close> under the sanitized
  key and the cluster name \<^verbatim>\<open>c1\<close> nowhere.
\<close>

theorem GetTemplate_marker_overwritten:
  "fst (GetTemplate example_externals [''karpenter.azure.com/cluster'', ''karpenter.azure.com_cluster'']
          example_provider example_world example_options colliding_nodeClass example_nodeClaim
          both_instanceType (MapAt 1))
     = Return (Some \<lparr>T_UserData = ''#!/bin/bash'', T_ImageID = ''image1'', T_Tags = MapAt 9\<rparr>, None)
   \<and> deref (heap (snd (GetTemplate example_externals
          [''karpenter.azure.com/cluster'', ''karpenter.azure.com_cluster'']
          example_provider example_world example_options colliding_nodeClass example_nodeClaim
          both_instanceType (MapAt 1)))) (MapAt 9)
     = [''karpenter.azure.com_cluster'' \<mapsto> ''other'']
   \<and> ctx_ClusterName example_options = ''c1''
   \<and> range_order [''karpenter.azure.com/cluster'', ''karpenter.azure.com_cluster'']
         ((deref (heap example_world) (Spec_Tags colliding_nodeClass))
            (karpenterManagedTagKey \<mapsto> ctx_ClusterName example_options))"
proof -
  have s: "Spec_VnetSubnetID colliding_nodeClass = Some example_subnet_id"
    by (simp add: colliding_nodeClass_def)
  have v: "valid_ref (heap example_world) (Spec_Tags colliding_nodeClass)"
    by (simp add: colliding_nodeClass_def example_world_def valid_ref_def)
  have T: "deref (heap example_world) (Spec_Tags colliding_nodeClass)
             = [''karpenter.azure.com_cluster'' \<mapsto> ''other'']"
    by (simp add: colliding_nodeClass_def example_world_def deref_def)
  have m: "map_entries [''karpenter.azure.com/cluster'', ''karpenter.azure.com_cluster'']
             ([''karpenter.azure.com_cluster'' \<mapsto> ''other''](karpenterManagedTagKey \<mapsto> ''c1''))
             arm_entry
           = [''karpenter.azure.com_cluster'' \<mapsto> ''other'']"
    by (rule ext)
       (simp add: map_entries_def arm_entry_def strings_ReplaceAll_def to_StringPtr_def
          karpenterManagedTagKey_def)
  have c: "ctx_ClusterName example_options = ''c1''"
    by (simp add: example_options_def)
  have o: "range_order [''karpenter.azure.com/cluster'', ''karpenter.azure.com_cluster'']
         ((deref (heap example_world) (Spec_Tags colliding_nodeClass))
            (karpenterManagedTagKey \<mapsto> ctx_ClusterName example_options))"
    unfolding T by (auto simp: range_order_def karpenterManagedTagKey_def)
  from example_GetTemplate_result [OF s v, of
         "[''karpenter.azure.com/cluster'', ''karpenter.azure.com_cluster'']" both_instanceType]
  show ?thesis
    unfolding T m using c o by (simp only: T simp_thms)
qed

theorem GetTemplate_marker_key_witness:
  "fst (GetTemplate example_externals [''a/b'', ''karpenter.azure.com/cluster'']
          example_provider example_world example_options example_nodeClass example_nodeClaim
          both_instanceType (MapAt 1))
     = Return (Some \<lparr>T_UserData = ''#!/bin/bash'', T_ImageID = ''image1'', T_Tags = MapAt 9\<rparr>, None)
   \<and> deref (heap (snd (GetTemplate example_externals [''a/b'', ''karpenter.azure.com/cluster'']
          example_provider example_world example_options example_nodeClass example_nodeClaim
          both_instanceType (MapAt 1)))) (MapAt 9) ''karpenter.azure.com_cluster'' = Some ''c1''
   \<and> deref (heap (snd (GetTemplate example_externals [''a/b'', ''karpenter.azure.com/cluster'']
          example_provider example_world example_options example_nodeClass example_nodeClaim
          both_instanceType (MapAt 1)))) (MapAt 9) ''karpenter.azure.com/cluster'' = None"
proof -
  let ?order = "[''a/b'', ''karpenter.azure.com/cluster'']"
  let ?run = "GetTemplate example_externals ?order example_provider example_world example_options
                example_nodeClass example_nodeClaim both_instanceType (MapAt 1)"
  have s: "Spec_VnetSubnetID example_nodeClass = Some example_subnet_id"
    by (simp add: example_nodeClass_def)
  have v: "valid_ref (heap example_world) (Spec_Tags example_nodeClass)"
    by (simp add: example_nodeClass_def example_world_def valid_ref_def)
  have T: "deref (heap example_world) (Spec_Tags example_nodeClass) = [''a/b'' \<mapsto> ''1'']"
    by (simp add: example_nodeClass_def example_world_def deref_def)
  from example_GetTemplate [OF s v, of both_instanceType]
  obtain labels w0 sp w1 params where
    a: "lo_Assign example_world [NodeClaim_Labels example_nodeClaim, MapAt 1] = (labels, w0)"
    and b: "getStaticParameters example_externals example_provider w0 example_options both_instanceType
          example_nodeClass labels = (Return sp, w1)"
    and k: "KubeServerVersion example_externals = Inr ''1.29.0''"
    and r: "Resolve example_externals (heap w1) example_nodeClass example_nodeClaim both_instanceType
          (sp\<lparr>KubernetesVersion := ''1.29.0''\<rparr>) = (Inr params, heap w1)"
    and u: "UserData_Script params = Inr ''#!/bin/bash''"
    and c: "ClusterName params = ''c1''"
    and vr: "valid_ref (heap w1) (Tags params)"
    and d: "deref (heap w1) (Tags params) = deref (heap example_world) (Spec_Tags example_nodeClass)"
    by blast
  have o: "range_order ?order ((deref (heap w1) (Tags params))(karpenterManagedTagKey \<mapsto> ClusterName params))"
    unfolding d T c by (auto simp: range_order_def karpenterManagedTagKey_def)
  have n: "deref (heap w1) (Tags params) ''karpenter.azure.com_cluster'' = None"
    unfolding d T by simp
  from GetTemplate_marker_key [OF a b k r u vr o prod.collapse [symmetric]] n c
  obtain t where
    t: "fst ?run = Return (Some t, None)"
    and 1: "deref (heap (snd ?run)) (T_Tags t) ''karpenter.azure.com/cluster'' = None"
    and 2: "deref (heap (snd ?run)) (T_Tags t) ''karpenter.azure.com_cluster'' = Some ''c1''"
    by auto
  from example_GetTemplate_result [OF s v, of ?order both_instanceType] t
  have t': "t = \<lparr>T_UserData = ''#!/bin/bash'', T_ImageID = ''image1'', T_Tags = MapAt 9\<rparr>"
    by simp
  from t 1 2 show ?thesis unfolding t' by simp
qed

lemma prefix_deref:
  assumes "prefix h h'" and "valid_ref h r"
  shows "deref h' r = deref h r"
proof -
  from assms(1) obtain xs where "h' = h @ xs" by (auto simp: prefix_def)
  with assms(2) show ?thesis by (simp add: deref_valid_append)
qed

lemma getStaticParameters_fresh_labels:
  assumes "getStaticParameters ext p w ctx instanceType nodeClass labels = (Return sp, w2)"
  shows "\<exists>a. Labels sp = MapAt a \<and> length (heap w) \<le> a \<and> a < length (heap w2)"
proof -
  from getStaticParameters_ReturnD [OF assms] obtain vl w1 where
    g: "getVnetLabelValues ext w nodeClass = (Return vl, w1)"
    and w2: "w2 = w1\<lparr>heap := heap w1 @ [assign_maps [deref (heap w1) labels, deref (heap w1) vl]]\<rparr>"
    and l: "Labels sp = MapAt (length (heap w1))"
    by blast
  from getVnetLabelValues_cases [OF g] have "length (heap w) \<le> length (heap w1)" by auto
  with w2 l show ?thesis by simp
qed

lemma GetTemplate_heap:
  assumes frame: "\<forall>h nc ncl it sp. prefix h (snd (Resolve ext h nc ncl it sp))"
    and run: "GetTemplate ext order p w ctx nodeClass nodeClaim instanceType additionalLabels = (out, w')"
  shows "prefix (heap w) (heap w')
       \<and> (\<forall>t err. out = Return (Some t, err) \<longrightarrow>
             (\<exists>a. T_Tags t = MapAt a \<and> length (heap w) \<le> a \<and> a < length (heap w')))"
proof -
  obtain labels w0 where
    a: "lo_Assign w [NodeClaim_Labels nodeClaim, additionalLabels] = (labels, w0)"
    by (cases "lo_Assign w [NodeClaim_Labels nodeClaim, additionalLabels]")
  then have p0: "prefix (heap w) (heap w0)" by (auto simp: lo_Assign_eq)
  obtain sout w1 where
    b: "getStaticParameters ext p w0 ctx instanceType nodeClass labels = (sout, w1)"
    by (cases "getStaticParameters ext p w0 ctx instanceType nodeClass labels")
  from getStaticParameters_frame [OF b] p0 have p1: "prefix (heap w) (heap w1)"
    by (auto intro: prefix_order.trans)
  show ?thesis
  proof (cases sout)
    case (Panic pn)
    with GetTemplate_Panic [OF a, of ext p ctx instanceType nodeClass pn w1 order] b run p1
    show ?thesis by simp
  next
    case (Return sp)
    with b have b': "getStaticParameters ext p w0 ctx instanceType nodeClass labels = (Return sp, w1)"
      by simp
    show ?thesis
    proof (cases "KubeServerVersion ext")
      case (Inl e)
      from GetTemplate_version_Inl [OF a b' Inl, of order] run p1 show ?thesis by auto
    next
      case (Inr v)
      obtain resolved h3 where
        r: "Resolve ext (heap w1) nodeClass nodeClaim instanceType (sp\<lparr>KubernetesVersion := v\<rparr>)
              = (resolved, h3)"
        by (cases "Resolve ext (heap w1) nodeClass nodeClaim instanceType (sp\<lparr>KubernetesVersion := v\<rparr>)")
      from frame [rule_format, of "heap w1" nodeClass nodeClaim instanceType "sp\<lparr>KubernetesVersion := v\<rparr>"] r
      have "prefix (heap w1) h3" by simp
      with p1 have p3: "prefix (heap w) h3" by (rule prefix_order.trans)
      show ?thesis
      proof (cases resolved)
        case (Inl e)
        from GetTemplate_resolve_Inl [OF a b' Inr r [unfolded Inl], of order] run p3
        show ?thesis by auto
      next
        case (Inr params)
        let ?w3 = "\<lparr>heap = h3, calls = calls w1 @ [KubeServerVersion_call, Resolve_call]\<rparr>"
        obtain res w4 where c: "createLaunchTemplate order ?w3 params = (res, w4)"
          by (cases "createLaunchTemplate order ?w3 params")
        from createLaunchTemplate_shape [OF c]
        have p4: "prefix h3 (heap w4)"
          and f: "\<And>t err. res = (Some t, err) \<Longrightarrow>
                   err = None \<and> T_Tags t = MapAt (length h3 + 2) \<and> length (heap w4) = length h3 + 3"
          by auto
        from p3 p4 have p: "prefix (heap w) (heap w4)" by (rule prefix_order.trans)
        from p3 have len: "length (heap w) \<le> length h3" by (rule prefix_length_le)
        have g: "GetTemplate ext order p w ctx nodeClass nodeClaim instanceType additionalLabels =
                   (case res of (lt, Some err) \<Rightarrow> (Return (None, Some err), w4)
                              | (lt, None) \<Rightarrow> (Return (lt, None), w4))"
          using a b' \<open>KubeServerVersion ext = Inr v\<close> r Inr c
          by (simp add: GetTemplate_def split: prod.splits option.splits)
        obtain lt err where res: "res = (lt, err)" by (cases res)
        show ?thesis
        proof (cases err)
          case None
          with g res run have o: "out = Return (lt, None)" and w: "w' = w4" by auto
          show ?thesis
          proof (cases lt)
            case None
            with o w p show ?thesis by simp
          next
            case (Some t)
            from f [of t err] res Some
            have "T_Tags t = MapAt (length h3 + 2)" "length (heap w4) = length h3 + 3" by auto
            with o w p len Some show ?thesis by auto
          qed
        next
          case (Some e)
          with g res run have "out = Return (None, Some e)" and "w' = w4" by auto
          with p show ?thesis by simp
        qed
      qed
    qed
  qed
qed

text \<open>
  C10. Provided the external resolver leaves the tables it is handed as they are, the
  store after \<^verbatim>\<open>GetTemplate\<close> extends the store before it: the tables of the node claim's
  labels, of the additional labels and of the node class's tags are unchanged, and the
  tags of a returned template are a table allocated during the call. The same holds for
  \<^verbatim>\<open>getStaticParameters\<close> alone: the store is extended, its label argument and the node
  class's tags are unchanged, and the labels of the result are a new table.
\<close>

theorem GetTemplate_frame:
  assumes "\<forall>h nc ncl it sp. prefix h (snd (Resolve ext h nc ncl it sp))"
    and "GetTemplate ext order p w ctx nodeClass nodeClaim instanceType additionalLabels = (out, w')"
  shows "prefix (heap w) (heap w')
       \<and> (valid_ref (heap w) (NodeClaim_Labels nodeClaim) \<longrightarrow>
             deref (heap w') (NodeClaim_Labels nodeClaim) = deref (heap w) (NodeClaim_Labels nodeClaim))
       \<and> (valid_ref (heap w) additionalLabels \<longrightarrow>
             deref (heap w') additionalLabels = deref (heap w) additionalLabels)
       \<and> (valid_ref (heap w) (Spec_Tags nodeClass) \<longrightarrow>
             deref (heap w') (Spec_Tags nodeClass) = deref (heap w) (Spec_Tags nodeClass))
       \<and> (\<forall>t err. out = Return (Some t, err) \<longrightarrow>
             (\<exists>a. T_Tags t = MapAt a \<and> length (heap w) \<le> a \<and> a < length (heap w')))
       \<and> (\<forall>labels sout w2. getStaticParameters ext p w ctx instanceType nodeClass labels = (sout, w2) \<longrightarrow>
             prefix (heap w) (heap w2)
             \<and> (valid_ref (heap w) labels \<longrightarrow> deref (heap w2) labels = deref (heap w) labels)
             \<and> (valid_ref (heap w) (Spec_Tags nodeClass) \<longrightarrow>
                  deref (heap w2) (Spec_Tags nodeClass) = deref (heap w) (Spec_Tags nodeClass))
             \<and> (\<forall>sp. sout = Return sp \<longrightarrow>
                  (\<exists>a. Labels sp = MapAt a \<and> length (heap w) \<le> a \<and> a < length (heap w2))))"
proof -
  from GetTemplate_heap [OF assms]
  have p: "prefix (heap w) (heap w')"
    and t: "\<forall>t err. out = Return (Some t, err) \<longrightarrow>
             (\<exists>a. T_Tags t = MapAt a \<and> length (heap w) \<le> a \<and> a < length (heap w'))"
    by blast+
  have s: "prefix (heap w) (heap w2)
         \<and> (valid_ref (heap w) labels \<longrightarrow> deref (heap w2) labels = deref (heap w) labels)
         \<and> (valid_ref (heap w) (Spec_Tags nodeClass) \<longrightarrow>
              deref (heap w2) (Spec_Tags nodeClass) = deref (heap w) (Spec_Tags nodeClass))
         \<and> (\<forall>sp. sout = Return sp \<longrightarrow>
              (\<exists>a. Labels sp = MapAt a \<and> length (heap w) \<le> a \<and> a < length (heap w2)))"
    if b: "getStaticParameters ext p w ctx instanceType nodeClass labels = (sout, w2)"
    for labels sout w2
  proof -
    from getStaticParameters_frame [OF b] have p2: "prefix (heap w) (heap w2)" by simp
    from getStaticParameters_fresh_labels b
    have "\<forall>sp. sout = Return sp \<longrightarrow>
              (\<exists>a. Labels sp = MapAt a \<and> length (heap w) \<le> a \<and> a < length (heap w2))"
      by blast
    with p2 prefix_deref [OF p2] show ?thesis by blast
  qed
  from p t s prefix_deref [OF p] show ?thesis by blast
qed

theorem GetTemplate_frame_witness:
  "deref (heap (snd (GetTemplate example_externals [''a/b'', ''karpenter.azure.com/cluster'']
          example_provider example_world example_options example_nodeClass example_nodeClaim
          both_instanceType (MapAt 1)))) (NodeClaim_Labels example_nodeClaim)
     = [''team'' \<mapsto> ''a'', ''kubernetes.azure.com/network-name'' \<mapsto> ''mine'']
   \<and> deref (heap (snd (GetTemplate example_externals [''a/b'', ''karpenter.azure.com/cluster'']
          example_provider example_world example_options example_nodeClass example_nodeClaim
          both_instanceType (MapAt 1)))) (MapAt 1)
     = [''team'' \<mapsto> ''b'']
   \<and> deref (heap (snd (GetTemplate example_externals [''a/b'', ''karpenter.azure.com/cluster'']
          example_provider example_world example_options example_nodeClass example_nodeClaim
          both_instanceType (MapAt 1)))) (Spec_Tags example_nodeClass)
     = [''a/b'' \<mapsto> ''1'']"
proof -
  have f: "\<forall>h nc ncl it sp. prefix h (snd (Resolve example_externals h nc ncl it sp))"
    by (simp add: example_externals_def example_resolver_def)
  have v: "valid_ref (heap example_world) (NodeClaim_Labels example_nodeClaim)"
    "valid_ref (heap example_world) (MapAt 1)"
    "valid_ref (heap example_world) (Spec_Tags example_nodeClass)"
    by (simp_all add: valid_ref_def example_world_def example_nodeClaim_def example_nodeClass_def)
  have d: "deref (heap example_world) (NodeClaim_Labels example_nodeClaim)
             = [''team'' \<mapsto> ''a'', ''kubernetes.azure.com/network-name'' \<mapsto> ''mine'']"
    "deref (heap example_world) (MapAt 1) = [''team'' \<mapsto> ''b'']"
    "deref (heap example_world) (Spec_Tags example_nodeClass) = [''a/b'' \<mapsto> ''1'']"
    by (simp_all add: deref_def example_world_def example_nodeClaim_def example_nodeClass_def)
  from GetTemplate_frame
         [where ext = example_externals and order = "[''a/b'', ''karpenter.azure.com/cluster'']"
            and p = example_provider and w = example_world and ctx = example_options
            and nodeClass = example_nodeClass and nodeClaim = example_nodeClaim
            and instanceType = both_instanceType and additionalLabels = "MapAt 1",
          OF f prod.collapse [symmetric]] v
  show ?thesis unfolding d by blast
qed

lemma GetTemplate_rendered:
  assumes "lo_Assign w [NodeClaim_Labels nodeClaim, additionalLabels] = (labels, w0)"
    and "getStaticParameters ext p w0 ctx instanceType nodeClass labels = (Return sp, w1)"
    and "KubeServerVersion ext = Inr v"
    and "Resolve ext (heap w1) nodeClass nodeClaim instanceType (sp\<lparr>KubernetesVersion := v\<rparr>)
           = (Inr params, h3)"
    and "UserData_Script params = Inr u"
  shows "\<exists>t w4. GetTemplate ext order p w ctx nodeClass nodeClaim instanceType additionalLabels
                  = (Return (Some t, None), w4)
               \<and> T_UserData t = u \<and> T_ImageID t = ImageID params"
  using assms
  by (simp add: GetTemplate_def createLaunchTemplate_def Let_def make_map_def mergeTags_eq)

text \<open>
  C7. In a run of \<^verbatim>\<open>GetTemplate\<close> in which the Vnet label resolver returns and the cluster
  version is found, the image-family resolver is called with static parameters whose
  label set is a new table holding the node claim's labels, overridden by the additional
  labels, overridden by the Vnet labels, and the result of \<^verbatim>\<open>GetTemplate\<close> is what follows
  from the resolver's answer to that call. Every key of every source is in the label set;
  a key of the Vnet labels has the Vnet value, any other key of the additional labels has
  the additional value, and any other key has the node claim's value.
\<close>

theorem label_assembly_precedence:
  assumes "valid_ref (heap w) (NodeClaim_Labels nodeClaim)"
    and "valid_ref (heap w) additionalLabels"
    and "Spec_VnetSubnetID nodeClass = Some s"
    and "parts = strings_Split s (CHR ''/'')"
    and "3 \<le> length parts"
    and "KubeServerVersion ext = Inr v"
    and "GetTemplate ext order p w ctx nodeClass nodeClaim instanceType additionalLabels = (out, w')"
  shows "\<exists>sp h1 vn.
       vn = [vnetDataPlaneLabel \<mapsto> ciliumNetworkPlugin,
             vnetNetworkNameLabel \<mapsto> parts ! (length parts - 3),
             vnetSubnetNameLabel \<mapsto> parts ! (length parts - 1),
             vnetSubscriptionIDLabel \<mapsto> parts ! 2,
             vnetGUIDLabel \<mapsto> Getenv ext ''AZURE_VNET_GUID'',
             vnetPodNetworkTypeLabel \<mapsto> overlayNetworkType]
     \<and> h1 = heap w @
            [deref (heap w) (NodeClaim_Labels nodeClaim) ++ deref (heap w) additionalLabels,
             vn,
             deref (heap w) (NodeClaim_Labels nodeClaim) ++ deref (heap w) additionalLabels ++ vn]
     \<and> Labels sp = MapAt (length (heap w) + 2)
     \<and> (\<forall>e h3. Resolve ext h1 nodeClass nodeClaim instanceType (sp\<lparr>KubernetesVersion := v\<rparr>)
                   = (Inl e, h3)
             \<longrightarrow> out = Return (None, Some e))
     \<and> (\<forall>params h3 u. Resolve ext h1 nodeClass nodeClaim instanceType (sp\<lparr>KubernetesVersion := v\<rparr>)
                   = (Inr params, h3) \<and> UserData_Script params = Inr u
             \<longrightarrow> (\<exists>t. out = Return (Some t, None) \<and> T_UserData t = u
                       \<and> T_ImageID t = ImageID params))
     \<and> deref h1 (Labels sp) =
          deref (heap w) (NodeClaim_Labels nodeClaim) ++ deref (heap w) additionalLabels ++ vn
     \<and> dom (deref h1 (Labels sp)) =
          dom (deref (heap w) (NodeClaim_Labels nodeClaim)) \<union> dom (deref (heap w) additionalLabels)
            \<union> dom vn
     \<and> (\<forall>k x. vn k = Some x \<longrightarrow> deref h1 (Labels sp) k = Some x)
     \<and> (\<forall>k x. vn k = None \<and> deref (heap w) additionalLabels k = Some x
             \<longrightarrow> deref h1 (Labels sp) k = Some x)
     \<and> (\<forall>k. vn k = None \<and> deref (heap w) additionalLabels k = None
             \<longrightarrow> deref h1 (Labels sp) k = deref (heap w) (NodeClaim_Labels nodeClaim) k)"
proof -
  let ?nc = "deref (heap w) (NodeClaim_Labels nodeClaim)"
  let ?ad = "deref (heap w) additionalLabels"
  define vn where "vn = [vnetDataPlaneLabel \<mapsto> ciliumNetworkPlugin,
             vnetNetworkNameLabel \<mapsto> parts ! (length parts - 3),
             vnetSubnetNameLabel \<mapsto> parts ! (length parts - 1),
             vnetSubscriptionIDLabel \<mapsto> parts ! 2,
             vnetGUIDLabel \<mapsto> Getenv ext ''AZURE_VNET_GUID'',
             vnetPodNetworkTypeLabel \<mapsto> overlayNetworkType]"
  define h1 where "h1 = heap w @ [?nc ++ ?ad, vn, ?nc ++ ?ad ++ vn]"
  define w0 where "w0 = w\<lparr>heap := heap w @ [?nc ++ ?ad]\<rparr>"
  define w1 where "w1 = w0\<lparr>heap := heap w0 @ [vn]\<rparr>"
  define w2 where "w2 = w1\<lparr>heap := h1\<rparr>"
  have two: "assign_maps [m, n] = m ++ n" for m n :: gomap
    by (simp add: assign_maps_def)
  have a: "lo_Assign w [NodeClaim_Labels nodeClaim, additionalLabels] = (MapAt (length (heap w)), w0)"
    by (simp add: lo_Assign_eq two w0_def)
  have lw0: "length (heap w0) = length (heap w) + 1" by (simp add: w0_def)
  have g: "getVnetLabelValues ext w0 nodeClass = (Return (MapAt (length (heap w0))), w1)"
    using getVnetLabelValues_ok [OF assms(3,4,5), of ext w0] by (simp add: w1_def vn_def)
  have hw1: "heap w1 = heap w @ [?nc ++ ?ad, vn]" by (simp add: w1_def w0_def)
  have dl: "deref (heap w1) (MapAt (length (heap w))) = ?nc ++ ?ad"
    by (simp add: hw1 deref_def nth_append)
  have dv: "deref (heap w1) (MapAt (length (heap w0))) = vn"
    by (simp add: hw1 lw0 deref_def nth_append)
  have hw2: "w1\<lparr>heap := heap w1 @ [assign_maps [deref (heap w1) (MapAt (length (heap w))),
                                               deref (heap w1) (MapAt (length (heap w0)))]]\<rparr> = w2"
    unfolding dl dv two by (simp add: w2_def h1_def hw1)
  from getStaticParameters_ReturnI [OF g, of p ctx instanceType "MapAt (length (heap w))"]
  obtain sp where
    b: "getStaticParameters ext p w0 ctx instanceType nodeClass (MapAt (length (heap w))) = (Return sp, w2)"
    and ls: "Labels sp = MapAt (length (heap w1))"
    unfolding hw2 by blast
  have ls': "Labels sp = MapAt (length (heap w) + 2)"
    by (simp add: ls hw1)
  have hh: "heap w2 = h1" by (simp add: w2_def)
  have c: "deref h1 (Labels sp) = ?nc ++ ?ad ++ vn"
    by (simp add: ls' h1_def deref_def nth_append)
  have d: "dom (deref h1 (Labels sp)) = dom ?nc \<union> dom ?ad \<union> dom vn"
    unfolding c by auto
  have p1: "deref h1 (Labels sp) k = Some x" if "vn k = Some x" for k x
    unfolding c using that by (simp add: map_add_def)
  have p2: "deref h1 (Labels sp) k = Some x" if "vn k = None" "?ad k = Some x" for k x
    unfolding c using that by (simp add: map_add_def)
  have p3: "deref h1 (Labels sp) k = ?nc k" if "vn k = None" "?ad k = None" for k
    unfolding c using that by (simp add: map_add_def)
  have r1: "out = Return (None, Some e)"
    if "Resolve ext h1 nodeClass nodeClaim instanceType (sp\<lparr>KubernetesVersion := v\<rparr>) = (Inl e, h3)"
    for e h3
    using GetTemplate_resolve_Inl [OF a b assms(6) that [folded hh], of order] assms(7) by simp
  have r2: "\<exists>t. out = Return (Some t, None) \<and> T_UserData t = u \<and> T_ImageID t = ImageID params"
    if "Resolve ext h1 nodeClass nodeClaim instanceType (sp\<lparr>KubernetesVersion := v\<rparr>) = (Inr params, h3)"
      and "UserData_Script params = Inr u"
    for params h3 u
    using GetTemplate_rendered [OF a b assms(6) that(1) [folded hh] that(2), of order] assms(7) by auto
  show ?thesis
    apply (rule exI [of _ sp], rule exI [of _ h1], rule exI [of _ vn])
    apply (intro conjI)
             apply (rule vn_def)
            apply (rule h1_def)
           apply (rule ls')
          apply (use r1 in blast)
         apply (use r2 in blast)
        apply (rule c)
       apply (rule d)
      apply (use p1 in blast)
     apply (use p2 in blast)
    apply (use p3 in blast)
    done
qed

theorem label_assembly_precedence_witness:
  "\<exists>t. fst (GetTemplate (example_externals\<lparr>Resolve := label_echo_resolver\<rparr>) [] example_provider
               example_world example_options example_nodeClass example_nodeClaim both_instanceType
               (MapAt 1))
          = Return (Some t, None)
      \<and> T_UserData t = ''b'' \<and> T_ImageID t = ''vnet1''"
proof -
  let ?ext = "example_externals\<lparr>Resolve := label_echo_resolver\<rparr>"
  let ?run = "GetTemplate ?ext [] example_provider example_world example_options example_nodeClass
                example_nodeClaim both_instanceType (MapAt 1)"
  have v1: "valid_ref (heap example_world) (NodeClaim_Labels example_nodeClaim)"
    by (simp add: valid_ref_def example_world_def example_nodeClaim_def)
  have v2: "valid_ref (heap example_world) (MapAt 1)"
    by (simp add: valid_ref_def example_world_def)
  have s: "Spec_VnetSubnetID example_nodeClass = Some example_subnet_id"
    by (simp add: example_nodeClass_def)
  have l: "3 \<le> length (strings_Split example_subnet_id (CHR ''/''))"
    by (simp add: example_split)
  have k: "KubeServerVersion ?ext = Inr ''1.29.0''"
    by (simp add: example_externals_def)
  have ad: "deref (heap example_world) (MapAt 1) ''team'' = Some ''b''"
    by (simp add: deref_def example_world_def)
  from label_assembly_precedence
         [where ext = ?ext and order = "[]" and p = example_provider and w = example_world
            and ctx = example_options and nodeClass = example_nodeClass
            and nodeClaim = example_nodeClaim and instanceType = both_instanceType
            and additionalLabels = "MapAt 1",
          OF v1 v2 s refl l k prod.collapse [symmetric]]
  obtain sp h1 vn where
    vn: "vn = [vnetDataPlaneLabel \<mapsto> ciliumNetworkPlugin,
             vnetNetworkNameLabel \<mapsto> strings_Split example_subnet_id (CHR ''/'')
                ! (length (strings_Split example_subnet_id (CHR ''/'')) - 3),
             vnetSubnetNameLabel \<mapsto> strings_Split example_subnet_id (CHR ''/'')
                ! (length (strings_Split example_subnet_id (CHR ''/'')) - 1),
             vnetSubscriptionIDLabel \<mapsto> strings_Split example_subnet_id (CHR ''/'') ! 2,
             vnetGUIDLabel \<mapsto> Getenv ?ext ''AZURE_VNET_GUID'',
             vnetPodNetworkTypeLabel \<mapsto> overlayNetworkType]"
    and tie: "\<forall>params h3 u. Resolve ?ext h1 example_nodeClass example_nodeClaim both_instanceType
                   (sp\<lparr>KubernetesVersion := ''1.29.0''\<rparr>) = (Inr params, h3)
                 \<and> UserData_Script params = Inr u
             \<longrightarrow> (\<exists>t. fst ?run = Return (Some t, None) \<and> T_UserData t = u
                       \<and> T_ImageID t = ImageID params)"
    and p1: "\<forall>k x. vn k = Some x \<longrightarrow> deref h1 (Labels sp) k = Some x"
    and p2: "\<forall>k x. vn k = None \<and> deref (heap example_world) (MapAt 1) k = Some x
             \<longrightarrow> deref h1 (Labels sp) k = Some x"
    by (elim exE conjE) (rule that, assumption+)
  have vteam: "vn ''team'' = None"
    unfolding vn
    by (simp add: vnetDataPlaneLabel_def vnetNetworkNameLabel_def vnetSubnetNameLabel_def
          vnetSubscriptionIDLabel_def vnetGUIDLabel_def vnetPodNetworkTypeLabel_def)
  have vnet: "vn ''kubernetes.azure.com/network-name'' = Some ''vnet1''"
    unfolding vn example_split
    by (simp add: vnetDataPlaneLabel_def vnetNetworkNameLabel_def vnetSubnetNameLabel_def
          vnetSubscriptionIDLabel_def vnetGUIDLabel_def vnetPodNetworkTypeLabel_def)
  from p2 vteam ad have team: "deref h1 (Labels sp) ''team'' = Some ''b''" by blast
  from p1 vnet have net: "deref h1 (Labels sp) ''kubernetes.azure.com/network-name'' = Some ''vnet1''"
    by blast
  let ?params = "StaticParameters.extend (sp\<lparr>KubernetesVersion := ''1.29.0''\<rparr>)
                   (Parameters.fields (Inr ''b'') ''vnet1'') :: string Parameters"
  have r: "Resolve ?ext h1 example_nodeClass example_nodeClaim both_instanceType
             (sp\<lparr>KubernetesVersion := ''1.29.0''\<rparr>) = (Inr ?params, h1)"
    by (simp add: label_echo_resolver_def team net)
  have u: "UserData_Script ?params = Inr ''b''" and i: "ImageID ?params = ''vnet1''"
    by (simp_all add: StaticParameters.extend_def Parameters.fields_def)
  from tie r u have "\<exists>t. fst ?run = Return (Some t, None) \<and> T_UserData t = ''b''
                       \<and> T_ImageID t = ImageID ?params"
    by blast
  then show ?thesis unfolding i .
qed

lemma merged_marker:
  assumes "range_order order (T(karpenterManagedTagKey \<mapsto> cn))"
  shows "map_entries order (T(karpenterManagedTagKey \<mapsto> cn)) arm_entry karpenterManagedTagKey = None"
    and "''karpenter.azure.com_cluster''
           \<in> dom (map_entries order (T(karpenterManagedTagKey \<mapsto> cn)) arm_entry)"
    and "T ''karpenter.azure.com_cluster'' = None \<Longrightarrow>
           map_entries order (T(karpenterManagedTagKey \<mapsto> cn)) arm_entry
             ''karpenter.azure.com_cluster'' = Some cn"
proof -
  let ?U = "T(karpenterManagedTagKey \<mapsto> cn)"
  have so: "set order \<inter> dom ?U = dom ?U"
    using assms by (auto simp: range_order_def)
  have d: "dom (map_entries order ?U arm_entry) =
             (\<lambda>k. strings_ReplaceAll k (CHR ''/'') (CHR ''_'')) ` dom ?U"
    by (simp only: dom_map_entries so)
  have slash: "CHR ''/'' \<in> set karpenterManagedTagKey"
    by (simp add: karpenterManagedTagKey_def)
  show "map_entries order ?U arm_entry karpenterManagedTagKey = None"
  proof (rule ccontr)
    assume "map_entries order ?U arm_entry karpenterManagedTagKey \<noteq> None"
    then have "karpenterManagedTagKey \<in> dom (map_entries order ?U arm_entry)" by blast
    then obtain k where "karpenterManagedTagKey = strings_ReplaceAll k (CHR ''/'') (CHR ''_'')"
      unfolding d by blast
    with slash slash_free [of k] show False by simp
  qed
  show "''karpenter.azure.com_cluster'' \<in> dom (map_entries order ?U arm_entry)"
  proof -
    have "karpenterManagedTagKey \<in> dom ?U" by simp
    then have "strings_ReplaceAll karpenterManagedTagKey (CHR ''/'') (CHR ''_'')
                 \<in> dom (map_entries order ?U arm_entry)"
      unfolding d by (rule imageI)
    then show ?thesis by (simp only: sanitized_managed_key)
  qed
  show "map_entries order ?U arm_entry ''karpenter.azure.com_cluster'' = Some cn"
    if none: "T ''karpenter.azure.com_cluster'' = None"
  proof -
    have mem: "karpenterManagedTagKey \<in> set order"
      using assms by (auto simp: range_order_def)
    have "map_entries order ?U arm_entry
            (strings_ReplaceAll karpenterManagedTagKey (CHR ''/'') (CHR ''_'')) = Some cn"
    proof (rule map_entries_unclashed
             [where m = "?U" and k = karpenterManagedTagKey and ks = order and v = cn])
      show "karpenterManagedTagKey \<in> set order" by (rule mem)
      show "?U karpenterManagedTagKey = Some cn" by simp
    next
      fix k'
      assume k': "k' \<in> dom ?U"
        and eq: "strings_ReplaceAll k' (CHR ''/'') (CHR ''_'')
                   = strings_ReplaceAll karpenterManagedTagKey (CHR ''/'') (CHR ''_'')"
      from eq sanitized_to_managed_key [of k']
      have "k' = karpenterManagedTagKey \<or> k' = ''karpenter.azure.com_cluster''"
        by (simp only: sanitized_managed_key)
      moreover have "k' \<noteq> ''karpenter.azure.com_cluster''" if "k' \<noteq> karpenterManagedTagKey"
        using k' none that by auto
      ultimately show "k' = karpenterManagedTagKey" by blast
    qed
    then show ?thesis by (simp only: sanitized_managed_key)
  qed
qed

text \<open>
  C8 (as the code has it). When the script renders, the tags of the template are the
  merge of two sources, the resolver's tags and then the single entry from
  \<^verbatim>\<open>karpenter.azure.com/cluster\<close> to the cluster name, with every key sanitized. For a
  possible order of the map iteration: the keys are the sanitized keys of the two sources
  and every entry comes from an entry of their union; the literal managed-by key is
  absent and its sanitized form \<^verbatim>\<open>karpenter.azure.com_cluster\<close> is present; it holds the
  cluster name, whatever the resolver's tags hold under the managed-by key, provided the
  resolver's tags do not hold the key \<^verbatim>\<open>karpenter.azure.com_cluster\<close>; and any other key of
  the resolver's tags holds the resolver's value under its sanitized form provided no
  other key of the union is sanitized to the same key.
\<close>

theorem createLaunchTemplate_tags:
  assumes "UserData_Script opts = Inr u"
    and "valid_ref (heap w) (Tags opts)"
    and "range_order order ((deref (heap w) (Tags opts))(karpenterManagedTagKey \<mapsto> ClusterName opts))"
    and "createLaunchTemplate order w opts = (res, w')"
  shows "\<exists>t. res = (Some t, None)
       \<and> dom (deref (heap w') (T_Tags t)) =
            (\<lambda>k. strings_ReplaceAll k (CHR ''/'') (CHR ''_''))
              ` insert karpenterManagedTagKey (dom (deref (heap w) (Tags opts)))
       \<and> (\<forall>k' x. deref (heap w') (T_Tags t) k' = Some x \<longrightarrow>
             (\<exists>k. strings_ReplaceAll k (CHR ''/'') (CHR ''_'') = k'
                \<and> ((deref (heap w) (Tags opts))(karpenterManagedTagKey \<mapsto> ClusterName opts)) k
                     = Some x))
       \<and> deref (heap w') (T_Tags t) karpenterManagedTagKey = None
       \<and> ''karpenter.azure.com_cluster'' \<in> dom (deref (heap w') (T_Tags t))
       \<and> (deref (heap w) (Tags opts) ''karpenter.azure.com_cluster'' = None \<longrightarrow>
            deref (heap w') (T_Tags t) ''karpenter.azure.com_cluster'' = Some (ClusterName opts))
       \<and> (\<forall>k x. deref (heap w) (Tags opts) k = Some x \<and> k \<noteq> karpenterManagedTagKey
                \<and> (\<forall>k'. k' \<in> insert karpenterManagedTagKey (dom (deref (heap w) (Tags opts)))
                         \<and> strings_ReplaceAll k' (CHR ''/'') (CHR ''_'')
                             = strings_ReplaceAll k (CHR ''/'') (CHR ''_'')
                       \<longrightarrow> k' = k)
             \<longrightarrow> deref (heap w') (T_Tags t) (strings_ReplaceAll k (CHR ''/'') (CHR ''_'')) = Some x)"
proof -
  let ?T = "deref (heap w) (Tags opts)"
  let ?U = "?T(karpenterManagedTagKey \<mapsto> ClusterName opts)"
  let ?t = "\<lparr>T_UserData = u, T_ImageID = ImageID opts, T_Tags = MapAt (length (heap w) + 2)\<rparr>"
  have third: "deref (h @ [a, b, c]) (MapAt (length h + 2)) = c" for h and a b c :: gomap
    by (simp add: deref_def nth_append)
  from createLaunchTemplate_Inr [OF assms(1,2), of order] assms(4)
  have r: "res = (Some ?t, None)"
    and h: "heap w' = heap w @
         [[karpenterManagedTagKey \<mapsto> ClusterName opts], ?U, map_entries order ?U arm_entry]"
    by auto
  have c: "deref (heap w') (T_Tags ?t) = map_entries order ?U arm_entry"
    unfolding h by (simp only: Template.simps third)
  have so: "set order \<inter> dom ?U = dom ?U"
    using assms(3) by (auto simp: range_order_def)
  have d: "dom (deref (heap w') (T_Tags ?t)) =
             (\<lambda>k. strings_ReplaceAll k (CHR ''/'') (CHR ''_'')) ` insert karpenterManagedTagKey (dom ?T)"
    unfolding c by (simp only: dom_map_entries so) simp
  have o: "\<exists>k. strings_ReplaceAll k (CHR ''/'') (CHR ''_'') = k' \<and> ?U k = Some x"
    if "deref (heap w') (T_Tags ?t) k' = Some x" for k' x
    using map_entries_origin [of order ?U k' x] that unfolding c by blast
  note m = merged_marker [OF assms(3), folded c]
  have e: "deref (heap w') (T_Tags ?t) (strings_ReplaceAll k (CHR ''/'') (CHR ''_'')) = Some x"
    if tk: "?T k = Some x" and ne: "k \<noteq> karpenterManagedTagKey"
      and inj: "\<forall>k'. k' \<in> insert karpenterManagedTagKey (dom ?T)
                  \<and> strings_ReplaceAll k' (CHR ''/'') (CHR ''_'')
                      = strings_ReplaceAll k (CHR ''/'') (CHR ''_'')
                \<longrightarrow> k' = k"
    for k x
  proof -
    from tk ne have uk: "?U k = Some x" by simp
    then have mem: "k \<in> set order" using assms(3) by (auto simp: range_order_def)
    have "map_entries order ?U arm_entry (strings_ReplaceAll k (CHR ''/'') (CHR ''_'')) = Some x"
    proof (rule map_entries_unclashed [where m = "?U" and k = k and ks = order and v = x])
      show "k \<in> set order" by (rule mem)
      show "?U k = Some x" by (rule uk)
    next
      fix k'
      assume "k' \<in> dom ?U"
        and "strings_ReplaceAll k' (CHR ''/'') (CHR ''_'') = strings_ReplaceAll k (CHR ''/'') (CHR ''_'')"
      with inj show "k' = k" by auto
    qed
    then show ?thesis unfolding c .
  qed
  show ?thesis
    apply (rule exI [of _ ?t])
    apply (intro conjI)
         apply (rule r)
        apply (rule d)
       apply (use o in blast)
      apply (rule m(1))
     apply (rule m(2))
     apply (use m(3) in blast)
    apply (use e in blast)
    done
qed

lemma colliding_tags_merge:
  "map_entries [''karpenter.azure.com/cluster'', ''karpenter.azure.com_cluster'']
     ([''karpenter.azure.com_cluster'' \<mapsto> ''other''](karpenterManagedTagKey \<mapsto> ''c1'')) arm_entry
   = [''karpenter.azure.com_cluster'' \<mapsto> ''other'']"
  by (rule ext)
     (simp add: map_entries_def arm_entry_def strings_ReplaceAll_def to_StringPtr_def
        karpenterManagedTagKey_def)

text \<open>
  C8, the claim as stated fails. The resolver's tags hold \<^verbatim>\<open>karpenter.azure.com_cluster\<close>
  with the value \<^verbatim>\<open>other\<close>. The union of the two sources holds that entry and the
  managed-by entry with the cluster name \<^verbatim>\<open>c1\<close>; the tags of the template are not this
  union: with the managed-by key visited first they are the single entry from
  \<^verbatim>\<open>karpenter.azure.com_cluster\<close> to \<^verbatim>\<open>other\<close>, and the synthetic entry has not won.
\<close>

theorem createLaunchTemplate_marker_loses:
  "fst (createLaunchTemplate [''karpenter.azure.com/cluster'', ''karpenter.azure.com_cluster'']
          example_world (example_parameters\<lparr>Tags := MapAt 3\<rparr>))
     = (Some \<lparr>T_UserData = ''#!/bin/bash'', T_ImageID = ''image1'', T_Tags = MapAt 6\<rparr>, None)
   \<and> deref (heap (snd (createLaunchTemplate
          [''karpenter.azure.com/cluster'', ''karpenter.azure.com_cluster'']
          example_world (example_parameters\<lparr>Tags := MapAt 3\<rparr>)))) (MapAt 6)
     = [''karpenter.azure.com_cluster'' \<mapsto> ''other'']
   \<and> ClusterName (example_parameters\<lparr>Tags := MapAt 3\<rparr>) = ''c1''
   \<and> assign_maps [deref (heap example_world) (MapAt 3), [karpenterManagedTagKey \<mapsto> ''c1'']]
     = [''karpenter.azure.com_cluster'' \<mapsto> ''other'', ''karpenter.azure.com/cluster'' \<mapsto> ''c1'']
   \<and> range_order [''karpenter.azure.com/cluster'', ''karpenter.azure.com_cluster'']
         (assign_maps [deref (heap example_world) (MapAt 3), [karpenterManagedTagKey \<mapsto> ''c1'']])"
proof -
  let ?order = "[''karpenter.azure.com/cluster'', ''karpenter.azure.com_cluster'']"
  let ?opts = "example_parameters\<lparr>Tags := MapAt 3\<rparr>"
  have s: "UserData_Script ?opts = Inr ''#!/bin/bash''"
    by (simp add: example_parameters_def)
  have v: "valid_ref (heap example_world) (Tags ?opts)"
    by (simp add: example_world_def valid_ref_def)
  have T: "deref (heap example_world) (MapAt 3) = [''karpenter.azure.com_cluster'' \<mapsto> ''other'']"
    by (simp add: example_world_def deref_def)
  have tg: "Tags ?opts = MapAt 3" by simp
  have cn: "ClusterName ?opts = ''c1''" and im: "ImageID ?opts = ''image1''"
    by (simp_all add: example_parameters_def)
  have len: "length (heap example_world) + 2 = 6"
    by (simp add: example_world_def)
  have third: "deref (h @ [a, b, c]) (MapAt (length h + 2)) = c" for h and a b c :: gomap
    by (simp add: deref_def nth_append)
  note run = createLaunchTemplate_Inr [OF s v, of ?order, unfolded tg cn im T colliding_tags_merge]
  have 1: "fst (createLaunchTemplate ?order example_world ?opts)
     = (Some \<lparr>T_UserData = ''#!/bin/bash'', T_ImageID = ''image1'', T_Tags = MapAt 6\<rparr>, None)"
    unfolding run len by simp
  have 2: "deref (heap (snd (createLaunchTemplate ?order example_world ?opts))) (MapAt 6)
     = [''karpenter.azure.com_cluster'' \<mapsto> ''other'']"
    unfolding run len [symmetric] by (simp only: snd_conv world.simps third)
  have 3: "assign_maps [deref (heap example_world) (MapAt 3), [karpenterManagedTagKey \<mapsto> ''c1'']]
     = [''karpenter.azure.com_cluster'' \<mapsto> ''other'', ''karpenter.azure.com/cluster'' \<mapsto> ''c1'']"
    unfolding T by (simp add: assign_maps_def karpenterManagedTagKey_def)
  have 4: "range_order ?order
         (assign_maps [deref (heap example_world) (MapAt 3), [karpenterManagedTagKey \<mapsto> ''c1'']])"
    unfolding 3 by (auto simp: range_order_def)
  from 1 2 cn 3 4 show ?thesis by (intro conjI)
qed

theorem createLaunchTemplate_tags_witness:
  "fst (createLaunchTemplate [''a/b'', ''karpenter.azure.com/cluster''] example_world example_parameters)
     = (Some \<lparr>T_UserData = ''#!/bin/bash'', T_ImageID = ''image1'', T_Tags = MapAt 6\<rparr>, None)
   \<and> deref (heap (snd (createLaunchTemplate [''a/b'', ''karpenter.azure.com/cluster'']
                         example_world example_parameters))) (MapAt 6)
        ''karpenter.azure.com_cluster'' = Some ''c1''
   \<and> deref (heap (snd (createLaunchTemplate [''a/b'', ''karpenter.azure.com/cluster'']
                         example_world example_parameters))) (MapAt 6)
        ''karpenter.azure.com/cluster'' = None
   \<and> deref (heap (snd (createLaunchTemplate [''a/b'', ''karpenter.azure.com/cluster'']
                         example_world example_parameters))) (MapAt 6)
        ''a_b'' = Some ''1''"
proof -
  let ?order = "[''a/b'', ''karpenter.azure.com/cluster'']"
  let ?run = "createLaunchTemplate ?order example_world example_parameters"
  have s: "UserData_Script example_parameters = Inr ''#!/bin/bash''"
    by (simp add: example_parameters_def)
  have v: "valid_ref (heap example_world) (Tags example_parameters)"
    by (simp add: example_parameters_def example_world_def valid_ref_def)
  have T: "deref (heap example_world) (Tags example_parameters) = [''a/b'' \<mapsto> ''1'']"
    by (simp add: example_parameters_def example_world_def deref_def)
  have cn: "ClusterName example_parameters = ''c1''"
    by (simp add: example_parameters_def)
  have o: "range_order ?order
             ((deref (heap example_world) (Tags example_parameters))
                (karpenterManagedTagKey \<mapsto> ClusterName example_parameters))"
    unfolding T cn by (auto simp: range_order_def karpenterManagedTagKey_def)
  have n: "deref (heap example_world) (Tags example_parameters) ''karpenter.azure.com_cluster'' = None"
    unfolding T by simp
  have ab: "deref (heap example_world) (Tags example_parameters) ''a/b'' = Some ''1''"
    "''a/b'' \<noteq> karpenterManagedTagKey"
    "\<forall>k'. k' \<in> insert karpenterManagedTagKey (dom (deref (heap example_world) (Tags example_parameters)))
           \<and> strings_ReplaceAll k' (CHR ''/'') (CHR ''_'')
               = strings_ReplaceAll ''a/b'' (CHR ''/'') (CHR ''_'')
         \<longrightarrow> k' = ''a/b''"
    unfolding T by (auto simp: karpenterManagedTagKey_def strings_ReplaceAll_def)
  from createLaunchTemplate_tags [OF s v o prod.collapse [symmetric]]
  obtain t where
    t: "fst ?run = (Some t, None)"
    and 1: "deref (heap (snd ?run)) (T_Tags t) karpenterManagedTagKey = None"
    and 2: "deref (heap example_world) (Tags example_parameters) ''karpenter.azure.com_cluster'' = None
            \<longrightarrow> deref (heap (snd ?run)) (T_Tags t) ''karpenter.azure.com_cluster''
                  = Some (ClusterName example_parameters)"
    and 3: "\<forall>k x. deref (heap example_world) (Tags example_parameters) k = Some x
                \<and> k \<noteq> karpenterManagedTagKey
                \<and> (\<forall>k'. k' \<in> insert karpenterManagedTagKey
                                  (dom (deref (heap example_world) (Tags example_parameters)))
                         \<and> strings_ReplaceAll k' (CHR ''/'') (CHR ''_'')
                             = strings_ReplaceAll k (CHR ''/'') (CHR ''_'')
                       \<longrightarrow> k' = k)
             \<longrightarrow> deref (heap (snd ?run)) (T_Tags t) (strings_ReplaceAll k (CHR ''/'') (CHR ''_''))
                   = Some x"
    by (elim exE conjE) (rule that, assumption+)
  have len: "length (heap example_world) + 2 = 6"
    by (simp add: example_world_def)
  from createLaunchTemplate_Inr [OF s v, of ?order] t
  have "t = \<lparr>T_UserData = ''#!/bin/bash'', T_ImageID = ImageID example_parameters,
              T_Tags = MapAt (length (heap example_world) + 2)\<rparr>"
    by simp
  then have t': "t = \<lparr>T_UserData = ''#!/bin/bash'', T_ImageID = ''image1'', T_Tags = MapAt 6\<rparr>"
    unfolding len by (simp add: example_parameters_def)
  from 3 ab have "deref (heap (snd ?run)) (T_Tags t) (strings_ReplaceAll ''a/b'' (CHR ''/'') (CHR ''_''))
                   = Some ''1''"
    by blast
  then have 4: "deref (heap (snd ?run)) (T_Tags t) ''a_b'' = Some ''1''"
    by (simp add: strings_ReplaceAll_def)
  from 2 n cn have 5: "deref (heap (snd ?run)) (T_Tags t) ''karpenter.azure.com_cluster'' = Some ''c1''"
    by simp
  from 1 have 6: "deref (heap (snd ?run)) (T_Tags t) ''karpenter.azure.com/cluster'' = None"
    by (simp add: karpenterManagedTagKey_def)
  from t 4 5 6 show ?thesis unfolding t' by simp
qed

end
